theory Spec2Isabelle
  imports Complex_Main
begin

section \<open>Numbers and exceptions\<close>

text \<open>
  The script computes with numpy \<open>float64\<close> values. They are idealised here: a finite
  value is a real number and arithmetic on finite values is exact, so rounding, overflow
  and underflow are outside the model. \<open>None\<close> stands for a value that is not finite
  (\<open>nan\<close>, \<open>inf\<close>, \<open>-inf\<close>): numpy does not raise on a float division by zero, on the
  logarithm of a non-positive number or on the square root of a negative one, it
  returns such a value and goes on. In this script a non-finite operand always gives a
  non-finite result (no division has an infinite divisor: the divisors are lengths, means
  of finite columns, calibrated fluxes, and a denominator that is finite or \<open>nan\<close>), so
  one absorbing value is enough for all three.
\<close>

type_synonym npfloat = "real option"

text \<open>The Python exceptions the modelled code can raise.\<close>

datatype error = ZeroDivisionError | ValueError | IndexError | OSError

fun fl_add :: "npfloat \<Rightarrow> npfloat \<Rightarrow> npfloat" where
  "fl_add (Some a) (Some b) = Some (a + b)"
| "fl_add _ _ = None"

fun fl_sub :: "npfloat \<Rightarrow> npfloat \<Rightarrow> npfloat" where
  "fl_sub (Some a) (Some b) = Some (a - b)"
| "fl_sub _ _ = None"

fun fl_mul :: "npfloat \<Rightarrow> npfloat \<Rightarrow> npfloat" where
  "fl_mul (Some a) (Some b) = Some (a * b)"
| "fl_mul _ _ = None"

text \<open>\<open>a / b\<close> on floats: a zero divisor gives \<open>inf\<close> or \<open>nan\<close> and a warning.\<close>

fun fl_div :: "npfloat \<Rightarrow> npfloat \<Rightarrow> npfloat" where
  "fl_div (Some a) (Some b) = (if b = 0 then None else Some (a / b))"
| "fl_div _ _ = None"

text \<open>\<open>a ** 2\<close>.\<close>

fun fl_sq :: "npfloat \<Rightarrow> npfloat" where
  "fl_sq (Some a) = Some (a ^ 2)"
| "fl_sq None = None"

text \<open>\<open>np.sqrt\<close>: \<open>nan\<close> below zero.\<close>

fun fl_sqrt :: "npfloat \<Rightarrow> npfloat" where
  "fl_sqrt (Some a) = (if a < 0 then None else Some (sqrt a))"
| "fl_sqrt None = None"

text \<open>\<open>np.log10\<close>: \<open>-inf\<close> at zero, \<open>nan\<close> below.\<close>

fun fl_log10 :: "npfloat \<Rightarrow> npfloat" where
  "fl_log10 (Some a) = (if a \<le> 0 then None else Some (log 10 a))"
| "fl_log10 None = None"

section \<open>Arrays\<close>

text \<open>
  A one-dimensional numpy array is the list of its elements. Python's builtin \<open>sum\<close>
  starts from \<open>0\<close> and adds the elements from left to right.
\<close>

definition py_sum :: "npfloat list \<Rightarrow> npfloat" where
  "py_sum arr = foldl fl_add (Some 0) arr"

text \<open>
  \<open>sum(arr)/len(arr)\<close>. On an empty array \<open>sum\<close> is the integer \<open>0\<close> and the division
  \<open>0/0\<close> of Python integers raises; otherwise the dividend is a float and the divisor
  a positive integer.
\<close>

definition py_mean :: "npfloat list \<Rightarrow> error + npfloat" where
  "py_mean arr =
     (if arr = [] then Inl ZeroDivisionError
      else Inr (fl_div (py_sum arr) (Some (real (length arr)))))"

text \<open>Array and scalar, elementwise.\<close>

definition np_sub_scalar :: "npfloat list \<Rightarrow> npfloat \<Rightarrow> npfloat list" where
  "np_sub_scalar arr m = map (\<lambda>a. fl_sub a m) arr"

definition np_mul_scalar :: "npfloat list \<Rightarrow> npfloat \<Rightarrow> npfloat list" where
  "np_mul_scalar arr m = map (\<lambda>a. fl_mul a m) arr"

definition np_add_scalar :: "npfloat list \<Rightarrow> npfloat \<Rightarrow> npfloat list" where
  "np_add_scalar arr m = map (\<lambda>a. fl_add a m) arr"

definition np_sq :: "npfloat list \<Rightarrow> npfloat list" where
  "np_sq arr = map fl_sq arr"

definition np_sqrt :: "npfloat list \<Rightarrow> npfloat list" where
  "np_sqrt arr = map fl_sqrt arr"

definition np_log10 :: "npfloat list \<Rightarrow> npfloat list" where
  "np_log10 arr = map fl_log10 arr"

text \<open>
  Two arrays, elementwise, with numpy's broadcasting of one-dimensional shapes: equal
  lengths pair up, an array of length one is stretched, anything else raises.
\<close>

definition np_broadcast ::
  "(npfloat \<Rightarrow> npfloat \<Rightarrow> npfloat) \<Rightarrow> npfloat list \<Rightarrow> npfloat list \<Rightarrow> error + npfloat list" where
  "np_broadcast f xarr yarr =
     (if length xarr = length yarr then Inr (map2 f xarr yarr)
      else if length xarr = 1 then Inr (map (f (hd xarr)) yarr)
      else if length yarr = 1 then Inr (map (\<lambda>x. f x (hd yarr)) xarr)
      else Inl ValueError)"

section \<open>The correlation coefficient\<close>

text \<open>
  \<^verbatim>\<open>
  def corr_coeff(xarr, yarr):
      xmean = sum(xarr)/len(xarr)
      ymean = sum(yarr)/len(yarr)
      top = sum((xarr-xmean)*(yarr-ymean))
      bottom = np.sqrt(sum((xarr-xmean)**2)*sum((yarr-ymean)**2))
      return top/bottom
  \<close>
\<close>

definition corr_coeff :: "npfloat list \<Rightarrow> npfloat list \<Rightarrow> error + npfloat" where
  "corr_coeff xarr yarr =
     (case py_mean xarr of Inl e \<Rightarrow> Inl e | Inr xmean \<Rightarrow>
     (case py_mean yarr of Inl e \<Rightarrow> Inl e | Inr ymean \<Rightarrow>
     (case np_broadcast fl_mul (np_sub_scalar xarr xmean) (np_sub_scalar yarr ymean) of
        Inl e \<Rightarrow> Inl e
      | Inr prods \<Rightarrow>
          let top' = py_sum prods;
              bottom' = fl_sqrt (fl_mul (py_sum (np_sq (np_sub_scalar xarr xmean)))
                                       (py_sum (np_sq (np_sub_scalar yarr ymean))))
          in Inr (fl_div top' bottom'))))"

text \<open>
  With exact arithmetic in place of \<open>float64\<close>, this definition says which formula the
  code computes, which exceptions it raises and how it treats its two arguments. It does
  not say for which inputs the \<open>float64\<close> denominator is exactly zero: rounding can make
  the deviations of a constant array non-zero, and underflow can make the squared
  deviations of a non-constant array zero.
\<close>

text \<open>
  The definition of the Pearson coefficient in the words of the specification, on real
  numbers: the arithmetic means, the sum of the products of the deviations, and the
  square root of the product of the sums of their squares. The quotient does not exist
  when the denominator is zero.
\<close>

definition arith_mean :: "real list \<Rightarrow> real" where
  "arith_mean xs = (\<Sum>i<length xs. xs ! i) / real (length xs)"

definition pearson :: "real list \<Rightarrow> real list \<Rightarrow> npfloat" where
  "pearson xs ys =
     (let xmean = arith_mean xs;
          ymean = arith_mean ys;
          num = (\<Sum>i<length xs. (xs ! i - xmean) * (ys ! i - ymean));
          den = sqrt ((\<Sum>i<length xs. (xs ! i - xmean) ^ 2) * (\<Sum>i<length ys. (ys ! i - ymean) ^ 2))
      in if den = 0 then None else Some (num / den))"

text \<open>Auxiliary notions of the proofs: the deviations from the mean and the sum of their squares.\<close>

definition devs :: "real list \<Rightarrow> real list" where
  "devs xs = map (\<lambda>x. x - sum_list xs / real (length xs)) xs"

definition sq_dev :: "real list \<Rightarrow> real" where
  "sq_dev xs = (\<Sum>x\<leftarrow>xs. (x - sum_list xs / real (length xs)) ^ 2)"

section \<open>The input files\<close>

text \<open>
  For each galaxy the script reads two comma-separated tables with
  \<open>np.genfromtxt(..., skip_header = 1)\<close>. The module's docstring fixes their columns:
  \<open>Right Ascension, Declination, Sum UV, Npix UV, Sum IR, Npix IR, Galactocentric Radius\<close>
  for the bright regions (columns 0 to 6) and \<open>Mean UV, StDev UV, Mean IR, StDev IR\<close>
  for the background (columns 0 to 3). A table is the list of its data rows; its entries
  are finite numbers.
\<close>

record emission_row =
  right_ascension :: real
  declination :: real
  sum_UV :: real
  npix_UV :: real
  sum_IR :: real
  npix_IR :: real
  galactocentric_radius :: real

record bckg_row =
  mean_UV :: real
  stdev_UV :: real
  mean_IR :: real
  stdev_IR :: real

text \<open>
  The files the script can read, by file name. Parsing is \<open>np.genfromtxt\<close>'s work and is
  not modelled: a file is there with its table, or reading it raises.
\<close>

record filesystem =
  emission_npix :: "string \<rightharpoonup> emission_row list"
  Stdev_mean :: "string \<rightharpoonup> bckg_row list"

text \<open>
  \<open>np.genfromtxt\<close> returns a two-dimensional array only for a file of at least two
  data rows: it squeezes a single row to a one-dimensional array, and a file with the
  header alone gives an empty one-dimensional array. On either, \<open>table[:,k]\<close> raises
  \<open>IndexError\<close>.
\<close>

definition two_dimensional :: "'row list \<Rightarrow> bool" where
  "two_dimensional table \<longleftrightarrow> 2 \<le> length table"

text \<open>\<open>table[:,k]\<close> on a two-dimensional table: one column, as an array of floats.\<close>

definition column :: "('row \<Rightarrow> real) \<Rightarrow> 'row list \<Rightarrow> npfloat list" where
  "column field table = map (\<lambda>row. Some (field row)) table"

text \<open>
  Scalar times array, and the elementwise operations on two columns of one table (or on
  two arrays built alongside each other), which have the same length.
\<close>

definition np_scalar_mul :: "npfloat \<Rightarrow> npfloat list \<Rightarrow> npfloat list" where
  "np_scalar_mul m arr = map (fl_mul m) arr"

definition np_sub :: "npfloat list \<Rightarrow> npfloat list \<Rightarrow> npfloat list" where
  "np_sub xarr yarr = map2 fl_sub xarr yarr"

definition np_div :: "npfloat list \<Rightarrow> npfloat list \<Rightarrow> npfloat list" where
  "np_div xarr yarr = map2 fl_div xarr yarr"

section \<open>The reduction of one galaxy\<close>

text \<open>
  \<^verbatim>\<open>
  def data(galaxy):
      data = np.genfromtxt(galaxy+'_emission_npix.txt', ...)
      stdevs = np.genfromtxt(galaxy+'_Stdev_mean.txt', ...)
      UV_bckg_mean = sum(stdevs[:,0])/len(stdevs[:,0])
      IR_bckg_mean = sum(stdevs[:,2])/len(stdevs[:,2])
      data[:,2] -= UV_bckg_mean*data[:,3]
      data[:,4] -= IR_bckg_mean*data[:,5]
      UV_unc_perpix = (sum(stdevs[:,1])/len(stdevs[:,1]))/UV_bckg_mean
      IR_unc_perpix = (sum(stdevs[:,3])/len(stdevs[:,3]))/IR_bckg_mean
      UV_perc_unc = (np.sqrt(data[:,3]))*UV_unc_perpix
      IR_perc_unc = (np.sqrt(data[:,5]))*IR_unc_perpix
      data[:,2] *= (3.365*(10**(-5)))/(np.pi*5**2)
      UV_uncertainty = np.sqrt((UV_perc_unc**2)+(0.03**2))
      data[:,4] *= (10**6)/(4.25*10**10)
      IR_uncertainty = np.sqrt((IR_perc_unc**2)+(0.04**2))
      log_UV_unc = (1/np.log(10))*UV_uncertainty
      log_IR_unc = (1/np.log(10))*IR_uncertainty
      return [data[:,2], data[:,4], data[:,6], log_UV_unc, log_IR_unc]
  \<close>
  The function's local variables at its \<open>return\<close> are kept in a record, so that the
  intermediate quantities can be spoken about; \<open>data_2_subtracted\<close> and
  \<open>data_4_subtracted\<close> are columns 2 and 4 after the two in-place subtractions,
  \<open>data_2\<close> and \<open>data_4\<close> the same columns after the in-place multiplications.
  The first use of \<open>stdevs[:,0]\<close> (line 63) and the first use of \<open>data[:,2]\<close> (line 65)
  raise \<open>IndexError\<close> when the array is not two-dimensional; the later uses then succeed.
\<close>

record data_locals =
  UV_bckg_mean :: npfloat
  IR_bckg_mean :: npfloat
  data_2_subtracted :: "npfloat list"
  data_4_subtracted :: "npfloat list"
  UV_unc_perpix :: npfloat
  IR_unc_perpix :: npfloat
  UV_perc_unc :: "npfloat list"
  IR_perc_unc :: "npfloat list"
  data_2 :: "npfloat list"
  UV_uncertainty :: "npfloat list"
  data_4 :: "npfloat list"
  IR_uncertainty :: "npfloat list"
  log_UV_unc :: "npfloat list"
  log_IR_unc :: "npfloat list"
  returned :: "npfloat list list"

definition data_body :: "emission_row list \<Rightarrow> bckg_row list \<Rightarrow> error + data_locals" where
  "data_body table stdevs =
     (if \<not> two_dimensional stdevs then Inl IndexError else
     (case py_mean (column mean_UV stdevs) of Inl e \<Rightarrow> Inl e | Inr UV_bckg_mean' \<Rightarrow>
     (case py_mean (column mean_IR stdevs) of Inl e \<Rightarrow> Inl e | Inr IR_bckg_mean' \<Rightarrow>
     (if \<not> two_dimensional table then Inl IndexError else
      let d2 = np_sub (column sum_UV table) (np_scalar_mul UV_bckg_mean' (column npix_UV table));
          d4 = np_sub (column sum_IR table) (np_scalar_mul IR_bckg_mean' (column npix_IR table))
      in
     (case py_mean (column stdev_UV stdevs) of Inl e \<Rightarrow> Inl e | Inr UV_stdev_mean \<Rightarrow>
     (case py_mean (column stdev_IR stdevs) of Inl e \<Rightarrow> Inl e | Inr IR_stdev_mean \<Rightarrow>
      let UV_unc_perpix' = fl_div UV_stdev_mean UV_bckg_mean';
          IR_unc_perpix' = fl_div IR_stdev_mean IR_bckg_mean';
          UV_perc_unc' = np_mul_scalar (np_sqrt (column npix_UV table)) UV_unc_perpix';
          IR_perc_unc' = np_mul_scalar (np_sqrt (column npix_IR table)) IR_unc_perpix';
          d2' = np_mul_scalar d2 (Some ((3.365 * (10 powr (-5))) / (pi * 5 ^ 2)));
          UV_uncertainty' = np_sqrt (np_add_scalar (np_sq UV_perc_unc') (Some (0.03 ^ 2)));
          d4' = np_mul_scalar d4 (Some ((10 ^ 6) / (4.25 * 10 ^ 10)));
          IR_uncertainty' = np_sqrt (np_add_scalar (np_sq IR_perc_unc') (Some (0.04 ^ 2)));
          log_UV_unc' = np_scalar_mul (Some (1 / ln 10)) UV_uncertainty';
          log_IR_unc' = np_scalar_mul (Some (1 / ln 10)) IR_uncertainty'
      in Inr \<lparr>UV_bckg_mean = UV_bckg_mean', IR_bckg_mean = IR_bckg_mean',
               data_2_subtracted = d2, data_4_subtracted = d4,
               UV_unc_perpix = UV_unc_perpix', IR_unc_perpix = IR_unc_perpix',
               UV_perc_unc = UV_perc_unc', IR_perc_unc = IR_perc_unc',
               data_2 = d2', UV_uncertainty = UV_uncertainty',
               data_4 = d4', IR_uncertainty = IR_uncertainty',
               log_UV_unc = log_UV_unc', log_IR_unc = log_IR_unc',
               returned = [d2', d4', column galactocentric_radius table, log_UV_unc', log_IR_unc']\<rparr>))))))"

definition data :: "filesystem \<Rightarrow> string \<Rightarrow> error + npfloat list list" where
  "data fs galaxy =
     (case emission_npix fs (galaxy @ ''_emission_npix.txt'') of None \<Rightarrow> Inl OSError | Some table \<Rightarrow>
     (case Stdev_mean fs (galaxy @ ''_Stdev_mean.txt'') of None \<Rightarrow> Inl OSError | Some stdevs \<Rightarrow>
     (case data_body table stdevs of Inl e \<Rightarrow> Inl e | Inr locals \<Rightarrow> Inr (returned locals))))"

section \<open>The plots\<close>

text \<open>
  What \<open>plot\<close> does is what it hands to matplotlib and what it prints. A figure is the
  list of its \<open>plt.plot\<close> calls (the two coordinate arrays, the format string and the
  label, if one is given), its title, its axis labels and its \<open>plt.legend\<close> call:
  \<open>plt.legend()\<close> shows the labels of the lines, \<open>plt.legend([s])\<close> shows the text \<open>s\<close>.
\<close>

record plot_call =
  call_x :: "npfloat list"
  call_y :: "npfloat list"
  call_fmt :: string
  call_label :: "string option"

datatype legend_call = Legend_of_labels | Legend_texts "string list"

record figure =
  fig_calls :: "plot_call list"
  fig_title :: string
  fig_xlabel :: string
  fig_ylabel :: string
  fig_legend :: legend_call

record plot_output =
  shown :: "figure list"
  printed :: "string list"

text \<open>
  \<open>if colours:\<close> holds when the optional argument is given and is not the empty list;
  \<open>colours[count]\<close> raises when \<open>count\<close> is past its end.
\<close>

fun truthy :: "string list option \<Rightarrow> bool" where
  "truthy None = False"
| "truthy (Some cs) = (cs \<noteq> [])"

definition py_index :: "'a list \<Rightarrow> nat \<Rightarrow> error + 'a" where
  "py_index xs i = (if i < length xs then Inr (xs ! i) else Inl IndexError)"

text \<open>
  \<^verbatim>\<open>
  x, y, r = np.array([]), np.array([]), np.array([])
  title = ''
  for i in galaxies:
      x, y, r = np.append(x, data(i)[0]), np.append(y, data(i)[1]), np.append(r, data(i)[2])
      title += 'NGC '+i+'  '
  \<close>
  The loop, with its four variables. The three calls \<open>data(i)\<close> of one round read the
  same files and return the same list of five arrays, or raise the same exception.
\<close>

fun pool ::
  "filesystem \<Rightarrow> string list \<Rightarrow> npfloat list \<times> npfloat list \<times> npfloat list \<times> string \<Rightarrow>
   error + npfloat list \<times> npfloat list \<times> npfloat list \<times> string" where
  "pool fs [] (x, y, r, title) = Inr (x, y, r, title)"
| "pool fs (i # galaxies) (x, y, r, title) =
     (case data fs i of Inl e \<Rightarrow> Inl e
      | Inr d \<Rightarrow> pool fs galaxies (x @ d ! 0, y @ d ! 1, r @ d ! 2, title @ ''NGC '' @ i @ ''  ''))"

text \<open>
  \<^verbatim>\<open>
  count = 0
  for i in galaxies:
      x = data(i)[0]
      y = data(i)[1]
      if colours:
          plt.plot(np.log10(x), np.log10(y), 'x'+colours[count], label = 'NGC '+i)
      else:
          plt.plot(np.log10(x), np.log10(y), 'xk')
      count += 1
  \<close>
\<close>

fun first_graph ::
  "filesystem \<Rightarrow> string list option \<Rightarrow> string list \<Rightarrow> nat \<Rightarrow> plot_call list \<Rightarrow>
   error + plot_call list" where
  "first_graph fs colours [] count calls = Inr calls"
| "first_graph fs colours (i # galaxies) count calls =
     (case data fs i of Inl e \<Rightarrow> Inl e
      | Inr d \<Rightarrow>
          let x = d ! 0; y = d ! 1 in
          if truthy colours then
            (case py_index (the colours) count of Inl e \<Rightarrow> Inl e
             | Inr c \<Rightarrow>
                 first_graph fs colours galaxies (count + 1)
                   (calls @ [\<lparr>call_x = np_log10 x, call_y = np_log10 y,
                              call_fmt = ''x'' @ c, call_label = Some (''NGC '' @ i)\<rparr>]))
          else
            first_graph fs colours galaxies (count + 1)
              (calls @ [\<lparr>call_x = np_log10 x, call_y = np_log10 y,
                         call_fmt = ''xk'', call_label = None\<rparr>]))"

text \<open>
  \<^verbatim>\<open>
  count = 0
  for i in galaxies:
      x = data(i)[2]
      y = data(i)[1]/data(i)[0]
      if colours:
          plt.plot(x, np.log10(y), 'x'+colours[count], label = 'NGC '+i)
      else:
          plt.plot(x, np.log10(y), 'xk')
      count += 1
  \<close>
\<close>

fun second_graph ::
  "filesystem \<Rightarrow> string list option \<Rightarrow> string list \<Rightarrow> nat \<Rightarrow> plot_call list \<Rightarrow>
   error + plot_call list" where
  "second_graph fs colours [] count calls = Inr calls"
| "second_graph fs colours (i # galaxies) count calls =
     (case data fs i of Inl e \<Rightarrow> Inl e
      | Inr d \<Rightarrow>
          let x = d ! 2; y = np_div (d ! 1) (d ! 0) in
          if truthy colours then
            (case py_index (the colours) count of Inl e \<Rightarrow> Inl e
             | Inr c \<Rightarrow>
                 second_graph fs colours galaxies (count + 1)
                   (calls @ [\<lparr>call_x = x, call_y = np_log10 y,
                              call_fmt = ''x'' @ c, call_label = Some (''NGC '' @ i)\<rparr>]))
          else
            second_graph fs colours galaxies (count + 1)
              (calls @ [\<lparr>call_x = x, call_y = np_log10 y,
                         call_fmt = ''xk'', call_label = None\<rparr>]))"

text \<open>
  \<^verbatim>\<open>
  r1 = 'r = '+str(corr_coeff(np.log10(x), np.log10(y)))
  r2 = 'r = '+str(corr_coeff(r, np.log10(y/x)))
  \<close>
  The two coefficients, from the arrays the first loop has built.
\<close>

definition coefficients ::
  "npfloat list \<Rightarrow> npfloat list \<Rightarrow> npfloat list \<Rightarrow> error + npfloat \<times> npfloat" where
  "coefficients x y r =
     (case corr_coeff (np_log10 x) (np_log10 y) of Inl e \<Rightarrow> Inl e | Inr c1 \<Rightarrow>
     (case corr_coeff r (np_log10 (np_div y x)) of Inl e \<Rightarrow> Inl e | Inr c2 \<Rightarrow> Inr (c1, c2)))"

text \<open>
  \<^verbatim>\<open>
  def plot(galaxies, colours = None):
      (the pooling loop)
      r1 = ...
      r2 = ...
      (the loop of the first graph)
      plt.title(title)
      plt.xlabel('log(UV flux density)')
      plt.ylabel('log(IR flux density)')
      if colours:
          plt.legend()
          print('First graph: '+r1)
      else:
          plt.legend([r1])
      plt.show()
      (the loop of the second graph)
      plt.title(title)
      plt.xlabel('galactocentric radius (arcsec)')
      plt.ylabel('log(IR flux density/UV flux density)')
      if colours:
          plt.legend()
          print('Second graph: '+r2)
      else:
          plt.legend([r1])
      plt.show()
  \<close>
  Python's \<open>str\<close> of a float is the parameter \<open>str\<close>. The entries of \<open>colours\<close> are taken
  to be colour letters that matplotlib accepts in a format string, as the docstring asks;
  matplotlib's own refusal of another string is not modelled. An exception ends the call. The
  loop of the second graph reads the same files and the same indices of \<open>colours\<close> as
  the loop of the first, so whatever raises does so before the first figure is shown,
  and the model returns either the exception or both figures with the printed lines.
\<close>

definition plot ::
  "(npfloat \<Rightarrow> string) \<Rightarrow> filesystem \<Rightarrow> string list \<Rightarrow> string list option \<Rightarrow> error + plot_output" where
  "plot str fs galaxies colours =
     (case pool fs galaxies ([], [], [], []) of Inl e \<Rightarrow> Inl e | Inr (x, y, r, title) \<Rightarrow>
     (case coefficients x y r of Inl e \<Rightarrow> Inl e | Inr (c1, c2) \<Rightarrow>
      let r1 = ''r = '' @ str c1;
          r2 = ''r = '' @ str c2
      in
     (case first_graph fs colours galaxies 0 [] of Inl e \<Rightarrow> Inl e | Inr calls1 \<Rightarrow>
      let fig1 = \<lparr>fig_calls = calls1, fig_title = title,
                  fig_xlabel = ''log(UV flux density)'',
                  fig_ylabel = ''log(IR flux density)'',
                  fig_legend = (if truthy colours then Legend_of_labels else Legend_texts [r1])\<rparr>;
          printed1 = (if truthy colours then [''First graph: '' @ r1] else [])
      in
     (case second_graph fs colours galaxies 0 [] of Inl e \<Rightarrow> Inl e | Inr calls2 \<Rightarrow>
      let fig2 = \<lparr>fig_calls = calls2, fig_title = title,
                  fig_xlabel = ''galactocentric radius (arcsec)'',
                  fig_ylabel = ''log(IR flux density/UV flux density)'',
                  fig_legend = (if truthy colours then Legend_of_labels else Legend_texts [r1])\<rparr>;
          printed2 = (if truthy colours then [''Second graph: '' @ r2] else [])
      in Inr \<lparr>shown = [fig1, fig2], printed = printed1 @ printed2\<rparr>))))"

text \<open>
  Two sets of files differ only in the standard-deviation columns of the background
  tables when the tables of the bright regions are the same and, file by file, the
  background tables have the same rows up to \<open>StDev UV\<close> and \<open>StDev IR\<close>.
\<close>

definition same_bckg_means :: "bckg_row list \<Rightarrow> bckg_row list \<Rightarrow> bool" where
  "same_bckg_means a b \<longleftrightarrow>
     length a = length b \<and> map mean_UV a = map mean_UV b \<and> map mean_IR a = map mean_IR b"

definition differ_only_in_stdev :: "filesystem \<Rightarrow> filesystem \<Rightarrow> bool" where
  "differ_only_in_stdev fs fs' \<longleftrightarrow>
     emission_npix fs = emission_npix fs' \<and>
     (\<forall>name. rel_option same_bckg_means (Stdev_mean fs name) (Stdev_mean fs' name))"

text \<open>Two lists returned by \<open>data\<close> agree on the three arrays \<open>plot\<close> reads.\<close>

definition agree :: "npfloat list list \<Rightarrow> npfloat list list \<Rightarrow> bool" where
  "agree d d' \<longleftrightarrow> d ! 0 = d' ! 0 \<and> d ! 1 = d' ! 1 \<and> d ! 2 = d' ! 2"

section \<open>The quantities of the specification\<close>

text \<open>
  The fractional uncertainty of a region in the words of the specification: the square
  root of the pixel count times the per-pixel uncertainty (the mean background standard
  deviation over the mean background level), combined in quadrature with a fixed
  fractional calibration uncertainty. It is not a number when the pixel count is
  negative or the background level is zero.
\<close>

definition in_quadrature :: "real \<Rightarrow> real \<Rightarrow> real" where
  "in_quadrature a b = sqrt (a ^ 2 + b ^ 2)"

definition region_uncertainty :: "real \<Rightarrow> real \<Rightarrow> real \<Rightarrow> real \<Rightarrow> npfloat" where
  "region_uncertainty npix bckg_stdev bckg_level calibration =
     (if npix < 0 \<or> bckg_level = 0 then None
      else Some (in_quadrature (sqrt npix * (bckg_stdev / bckg_level)) calibration))"

section \<open>An example input\<close>

text \<open>
  One galaxy with two bright regions and two background regions. The background level is
  1 in both bands, so the background-subtracted sums are 1 and 10 in the ultraviolet and
  1 and 100 in the infrared; the first region lies further out than the second.
\<close>

definition example_table :: "emission_row list" where
  "example_table =
     [\<lparr>right_ascension = 0, declination = 0, sum_UV = 5, npix_UV = 4, sum_IR = 5, npix_IR = 4,
       galactocentric_radius = 2\<rparr>,
      \<lparr>right_ascension = 0, declination = 0, sum_UV = 14, npix_UV = 4, sum_IR = 104, npix_IR = 4,
       galactocentric_radius = 1\<rparr>]"

definition example_stdevs :: "bckg_row list" where
  "example_stdevs =
     [\<lparr>mean_UV = 1 / 2, stdev_UV = 1, mean_IR = 1 / 2, stdev_IR = 2\<rparr>,
      \<lparr>mean_UV = 3 / 2, stdev_UV = 3, mean_IR = 3 / 2, stdev_IR = 4\<rparr>]"

definition example_fs :: filesystem where
  "example_fs =
     \<lparr>emission_npix = [''3938_emission_npix.txt'' \<mapsto> example_table],
      Stdev_mean = [''3938_Stdev_mean.txt'' \<mapsto> example_stdevs]\<rparr>"

text \<open>The same files with other standard deviations of the background.\<close>

definition example_stdevs' :: "bckg_row list" where
  "example_stdevs' =
     [\<lparr>mean_UV = 1 / 2, stdev_UV = 7, mean_IR = 1 / 2, stdev_IR = 0\<rparr>,
      \<lparr>mean_UV = 3 / 2, stdev_UV = 0, mean_IR = 3 / 2, stdev_IR = 9\<rparr>]"

definition example_fs' :: filesystem where
  "example_fs' =
     \<lparr>emission_npix = [''3938_emission_npix.txt'' \<mapsto> example_table],
      Stdev_mean = [''3938_Stdev_mean.txt'' \<mapsto> example_stdevs']\<rparr>"

text \<open>
  Two more galaxies, for a call of \<open>plot\<close> on a list of two. With the background level 1
  and four pixels per region, the background-subtracted sums are 1 and 100 (ultraviolet),
  1 and 10 (infrared) at the radii 0 and 1 in the first galaxy, and 10000 and 1
  (ultraviolet), 100 and 1 (infrared) at the radii 2 and 0 in the second.
\<close>

definition example_table_628 :: "emission_row list" where
  "example_table_628 =
     [\<lparr>right_ascension = 0, declination = 0, sum_UV = 5, npix_UV = 4, sum_IR = 5, npix_IR = 4,
       galactocentric_radius = 0\<rparr>,
      \<lparr>right_ascension = 0, declination = 0, sum_UV = 104, npix_UV = 4, sum_IR = 14, npix_IR = 4,
       galactocentric_radius = 1\<rparr>]"

definition example_table_5194 :: "emission_row list" where
  "example_table_5194 =
     [\<lparr>right_ascension = 0, declination = 0, sum_UV = 10004, npix_UV = 4, sum_IR = 104, npix_IR = 4,
       galactocentric_radius = 2\<rparr>,
      \<lparr>right_ascension = 0, declination = 0, sum_UV = 5, npix_UV = 4, sum_IR = 5, npix_IR = 4,
       galactocentric_radius = 0\<rparr>]"

definition example_fs2 :: filesystem where
  "example_fs2 =
     \<lparr>emission_npix = [''628_emission_npix.txt'' \<mapsto> example_table_628,
                       ''5194_emission_npix.txt'' \<mapsto> example_table_5194],
      Stdev_mean = [''628_Stdev_mean.txt'' \<mapsto> example_stdevs,
                    ''5194_Stdev_mean.txt'' \<mapsto> example_stdevs]\<rparr>"

text \<open>The calibration factors of lines 75 and 78, as the code writes them.\<close>

definition UV_factor :: real where
  "UV_factor = (3.365 * (10 powr (-5))) / (pi * 5 ^ 2)"

definition IR_factor :: real where
  "IR_factor = (10 ^ 6) / (4.25 * 10 ^ 10)"

text \<open>A stand-in for Python's \<open>str\<close> on the values the examples meet.\<close>

definition example_str :: "npfloat \<Rightarrow> string" where
  "example_str v = (if v = Some 1 then ''1.0'' else if v = Some (- 1) then ''-1.0'' else ''nan'')"

section \<open>Facts about floats and arrays\<close>

lemma py_sum_foldl: "foldl fl_add (Some a) (map Some xs) = Some (a + sum_list xs)"
  by (induction xs arbitrary: a) (simp_all add: add.assoc)

lemma py_sum_Some: "py_sum (map Some xs) = Some (sum_list xs)"
  by (simp add: py_sum_def py_sum_foldl)

lemma py_mean_Some:
  "xs \<noteq> [] \<Longrightarrow> py_mean (map Some xs) = Inr (Some (sum_list xs / real (length xs)))"
  by (simp add: py_mean_def py_sum_Some)

lemma py_mean_Nil: "py_mean [] = Inl ZeroDivisionError"
  by (simp add: py_mean_def)

lemma np_sub_scalar_Some:
  "np_sub_scalar (map Some xs) (Some m) = map Some (map (\<lambda>x. x - m) xs)"
  by (simp add: np_sub_scalar_def)

lemma np_sq_Some: "np_sq (map Some xs) = map Some (map (\<lambda>x. x ^ 2) xs)"
  by (simp add: np_sq_def)

lemma map2_fl_mul_Some:
  "map2 fl_mul (map Some xs) (map Some ys) = map Some (map2 (*) xs ys)"
  by (induction xs ys rule: list_induct2') simp_all

lemma np_broadcast_Some:
  "length xs = length ys \<Longrightarrow>
   np_broadcast fl_mul (map Some xs) (map Some ys) = Inr (map Some (map2 (*) xs ys))"
  by (simp only: np_broadcast_def length_map if_True map2_fl_mul_Some simp_thms)

lemma fl_mul_commute: "fl_mul a b = fl_mul b a"
  by (cases a; cases b) (simp_all add: mult.commute)

lemma map2_fl_mul_commute: "map2 fl_mul xs ys = map2 fl_mul ys xs"
  by (induction xs ys rule: list_induct2') (simp_all add: fl_mul_commute)

lemma np_broadcast_fl_mul_commute:
  "np_broadcast fl_mul xs ys = np_broadcast fl_mul ys xs"
proof -
  have "map (fl_mul a) zs = map (\<lambda>x. fl_mul x a) zs" for a zs
    by (simp add: fl_mul_commute)
  then show ?thesis
    unfolding np_broadcast_def using map2_fl_mul_commute[of xs ys] by auto
qed

section \<open>Facts about the correlation coefficient\<close>

lemma corr_coeff_commute: "corr_coeff xarr yarr = corr_coeff yarr xarr"
proof (cases "py_mean xarr")
  case (Inl e)
  then have "xarr = []" "e = ZeroDivisionError"
    by (auto simp: py_mean_def split: if_splits)
  then show ?thesis
    by (auto simp: corr_coeff_def py_mean_def split: sum.splits)
next
  case xm: (Inr xmean)
  show ?thesis
  proof (cases "py_mean yarr")
    case (Inl e)
    then have "yarr = []" "e = ZeroDivisionError"
      by (auto simp: py_mean_def split: if_splits)
    then show ?thesis
      by (auto simp: corr_coeff_def py_mean_def split: sum.splits)
  next
    case ym: (Inr ymean)
    have br: "np_broadcast fl_mul (np_sub_scalar xarr xmean) (np_sub_scalar yarr ymean) =
              np_broadcast fl_mul (np_sub_scalar yarr ymean) (np_sub_scalar xarr xmean)"
      by (rule np_broadcast_fl_mul_commute)
    have bt: "fl_mul (py_sum (np_sq (np_sub_scalar xarr xmean)))
                     (py_sum (np_sq (np_sub_scalar yarr ymean))) =
              fl_mul (py_sum (np_sq (np_sub_scalar yarr ymean)))
                     (py_sum (np_sq (np_sub_scalar xarr xmean)))"
      by (rule fl_mul_commute)
    show ?thesis
      unfolding corr_coeff_def by (simp only: xm ym sum.case br bt)
  qed
qed

lemma sq_dev_nonneg: "0 \<le> sq_dev xs"
  unfolding sq_dev_def by (rule sum_list_nonneg) auto

lemma sq_dev_devs: "sum_list (map (\<lambda>x. x ^ 2) (devs xs)) = sq_dev xs"
  by (simp add: devs_def sq_dev_def comp_def)

text \<open>On finite arrays of one positive length every step of \<open>corr_coeff\<close> is exact arithmetic.\<close>

lemma corr_coeff_finite:
  assumes "xs \<noteq> []" "length xs = length ys"
  shows "corr_coeff (map Some xs) (map Some ys) =
    Inr (if sqrt (sq_dev xs * sq_dev ys) = 0 then None
         else Some (sum_list (map2 (*) (devs xs) (devs ys)) / sqrt (sq_dev xs * sq_dev ys)))"
proof -
  from assms have ys: "ys \<noteq> []" by auto
  have nn: "\<not> sq_dev xs * sq_dev ys < 0"
    using sq_dev_nonneg[of xs] sq_dev_nonneg[of ys] by (simp add: not_less)
  have dx: "np_sub_scalar (map Some zs) (Some (sum_list zs / real (length zs))) = map Some (devs zs)"
    for zs
    by (simp only: np_sub_scalar_Some devs_def)
  have len: "length (devs xs) = length (devs ys)"
    using assms by (simp add: devs_def)
  have bot: "fl_sqrt (fl_mul (py_sum (np_sq (map Some (devs xs))))
                             (py_sum (np_sq (map Some (devs ys)))))
             = Some (sqrt (sq_dev xs * sq_dev ys))"
    using nn by (simp only: np_sq_Some py_sum_Some sq_dev_devs fl_mul.simps fl_sqrt.simps if_False)
  show ?thesis
    unfolding corr_coeff_def
    by (simp only: py_mean_Some[OF assms(1)] py_mean_Some[OF ys] sum.case dx
          np_broadcast_Some[OF len] py_sum_Some bot Let_def fl_div.simps if_distrib[of Inr])
qed

lemma corr_coeff_Nil1: "corr_coeff [] yarr = Inl ZeroDivisionError"
  by (simp add: corr_coeff_def py_mean_Nil)

lemma corr_coeff_Nil2: "corr_coeff xarr [] = Inl ZeroDivisionError"
  by (simp add: corr_coeff_def py_mean_def)

lemma corr_coeff_ValueError:
  assumes "length xarr \<noteq> length yarr" "1 < length xarr" "1 < length yarr"
  shows "corr_coeff xarr yarr = Inl ValueError"
  using assms by (auto simp: corr_coeff_def py_mean_def np_broadcast_def np_sub_scalar_def)

lemma arith_mean_sum_list: "arith_mean xs = sum_list xs / real (length xs)"
  by (simp add: arith_mean_def sum_list_sum_nth atLeast0LessThan)

lemma sq_dev_sum: "sq_dev xs = (\<Sum>i<length xs. (xs ! i - arith_mean xs) ^ 2)"
  by (simp add: sq_dev_def arith_mean_sum_list sum_list_sum_nth atLeast0LessThan)

lemma devs_prod_sum:
  assumes "length xs = length ys"
  shows "sum_list (map2 (*) (devs xs) (devs ys)) =
         (\<Sum>i<length xs. (xs ! i - arith_mean xs) * (ys ! i - arith_mean ys))"
  using assms by (simp add: devs_def arith_mean_sum_list sum_list_sum_nth atLeast0LessThan)

text \<open>
  C1. For numeric arrays of one positive length, \<open>corr_coeff\<close>, which sums with Python's
  \<open>sum\<close> and calls no statistics routine, returns the Pearson coefficient of the
  definition: the sum of the products of the deviations from the arithmetic means,
  divided by the square root of the product of the sums of the squared deviations.
\<close>

theorem corr_coeff_is_pearson:
  assumes "length xs = length ys" and "0 < length xs"
  shows "corr_coeff (map Some xs) (map Some ys) = Inr (pearson xs ys)"
proof -
  from assms have "xs \<noteq> []" by auto
  then have "corr_coeff (map Some xs) (map Some ys) =
    Inr (if sqrt (sq_dev xs * sq_dev ys) = 0 then None
         else Some (sum_list (map2 (*) (devs xs) (devs ys)) / sqrt (sq_dev xs * sq_dev ys)))"
    using assms(1) by (rule corr_coeff_finite)
  also have "\<dots> = Inr (pearson xs ys)"
    unfolding pearson_def Let_def
    by (simp only: devs_prod_sum[OF assms(1)] sq_dev_sum)
  finally show ?thesis .
qed

theorem corr_coeff_is_pearson_witness:
  "length [1, 2 :: real] = length [3, 5 :: real] \<and> 0 < length [1, 2 :: real] \<and>
   corr_coeff (map Some [1, 2]) (map Some [3, 5]) = Inr (pearson [1, 2] [3, 5]) \<and>
   pearson [1, 2] [3, 5] = Some 1"
  using corr_coeff_is_pearson[of "[1, 2]" "[3, 5]"]
  by (simp add: pearson_def arith_mean_def lessThan_Suc numeral_2_eq_2 power2_eq_square)

text \<open>
  C8. \<open>corr_coeff\<close> is symmetric in its two arguments. This holds for all arrays, with
  the exceptions and the non-finite results included.
\<close>

theorem corr_coeff_symmetric: "corr_coeff xarr yarr = corr_coeff yarr xarr"
  by (rule corr_coeff_commute)

theorem corr_coeff_symmetric_witness:
  "corr_coeff [Some 1, Some 2] [Some 3, Some 5] = corr_coeff [Some 3, Some 5] [Some 1, Some 2]"
  by (rule corr_coeff_symmetric)

section \<open>Facts about the reduction\<close>

lemma column_map: "column f t = map Some (map f t)"
  by (simp add: column_def)

lemma py_mean_column:
  "t \<noteq> [] \<Longrightarrow> py_mean (column f t) = Inr (Some (arith_mean (map f t)))"
  unfolding column_map arith_mean_sum_list using py_mean_Some[of "map f t"] by simp

lemma map2_same: "map2 h (map a t) (map b t) = map (\<lambda>x. h (a x) (b x)) t"
  by (induction t) simp_all

lemma subtract_columns:
  "np_sub (column f t) (np_scalar_mul (Some m) (column g t)) = map (\<lambda>row. Some (f row - m * g row)) t"
  by (simp add: np_sub_def np_scalar_mul_def column_def map2_same)

text \<open>Files of fewer than two data rows: the first indexing of the array raises.\<close>

lemma data_body_short_stdevs:
  "length stdevs < 2 \<Longrightarrow> data_body table stdevs = Inl IndexError"
  by (simp add: data_body_def two_dimensional_def)

lemma data_body_short_table:
  assumes "2 \<le> length stdevs" and "length table < 2"
  shows "data_body table stdevs = Inl IndexError"
proof -
  from assms(1) have ne: "stdevs \<noteq> []" by auto
  show ?thesis
    unfolding data_body_def using assms
    by (simp add: two_dimensional_def py_mean_column[OF ne])
qed

lemma data_body_Inr:
  assumes "2 \<le> length stdevs" and "2 \<le> length table"
  shows "\<exists>L. data_body table stdevs = Inr L"
proof -
  from assms(1) have ne: "stdevs \<noteq> []" by auto
  have td: "two_dimensional stdevs" "two_dimensional table"
    using assms by (simp_all add: two_dimensional_def)
  show ?thesis
    unfolding data_body_def
    by (simp only: td not_True_eq_False if_False py_mean_column[OF ne] sum.case Let_def) blast
qed

lemma data_body_Inr_lengths:
  assumes "data_body table stdevs = Inr L"
  shows "2 \<le> length stdevs" and "2 \<le> length table"
proof -
  show s: "2 \<le> length stdevs"
    using assms data_body_short_stdevs[of stdevs table] by (cases "length stdevs < 2") auto
  show "2 \<le> length table"
    using assms data_body_short_table[OF s, of table] by (cases "length table < 2") auto
qed

lemma data_body_fields:
  assumes "data_body table stdevs = Inr L"
  shows "UV_bckg_mean L = Some (arith_mean (map mean_UV stdevs))"
    and "IR_bckg_mean L = Some (arith_mean (map mean_IR stdevs))"
    and "data_2_subtracted L = np_sub (column sum_UV table) (np_scalar_mul (UV_bckg_mean L) (column npix_UV table))"
    and "data_4_subtracted L = np_sub (column sum_IR table) (np_scalar_mul (IR_bckg_mean L) (column npix_IR table))"
    and "UV_unc_perpix L = fl_div (Some (arith_mean (map stdev_UV stdevs))) (UV_bckg_mean L)"
    and "IR_unc_perpix L = fl_div (Some (arith_mean (map stdev_IR stdevs))) (IR_bckg_mean L)"
    and "UV_perc_unc L = np_mul_scalar (np_sqrt (column npix_UV table)) (UV_unc_perpix L)"
    and "IR_perc_unc L = np_mul_scalar (np_sqrt (column npix_IR table)) (IR_unc_perpix L)"
    and "data_2 L = np_mul_scalar (data_2_subtracted L) (Some ((3.365 * (10 powr (-5))) / (pi * 5 ^ 2)))"
    and "data_4 L = np_mul_scalar (data_4_subtracted L) (Some ((10 ^ 6) / (4.25 * 10 ^ 10)))"
    and "UV_uncertainty L = np_sqrt (np_add_scalar (np_sq (UV_perc_unc L)) (Some (0.03 ^ 2)))"
    and "IR_uncertainty L = np_sqrt (np_add_scalar (np_sq (IR_perc_unc L)) (Some (0.04 ^ 2)))"
    and "log_UV_unc L = np_scalar_mul (Some (1 / ln 10)) (UV_uncertainty L)"
    and "log_IR_unc L = np_scalar_mul (Some (1 / ln 10)) (IR_uncertainty L)"
    and "returned L = [data_2 L, data_4 L, column galactocentric_radius table, log_UV_unc L, log_IR_unc L]"
proof -
  note len = data_body_Inr_lengths[OF assms]
  from len(1) have ne: "stdevs \<noteq> []" by auto
  have td: "two_dimensional stdevs" "two_dimensional table"
    using len by (simp_all add: two_dimensional_def)
  have "Inr L = data_body table stdevs" using assms by simp
  then have L': "L = \<lparr>UV_bckg_mean = Some (arith_mean (map mean_UV stdevs)),
      IR_bckg_mean = Some (arith_mean (map mean_IR stdevs)),
      data_2_subtracted = np_sub (column sum_UV table)
        (np_scalar_mul (Some (arith_mean (map mean_UV stdevs))) (column npix_UV table)),
      data_4_subtracted = np_sub (column sum_IR table)
        (np_scalar_mul (Some (arith_mean (map mean_IR stdevs))) (column npix_IR table)),
      UV_unc_perpix = fl_div (Some (arith_mean (map stdev_UV stdevs)))
        (Some (arith_mean (map mean_UV stdevs))),
      IR_unc_perpix = fl_div (Some (arith_mean (map stdev_IR stdevs)))
        (Some (arith_mean (map mean_IR stdevs))),
      UV_perc_unc = np_mul_scalar (np_sqrt (column npix_UV table))
        (fl_div (Some (arith_mean (map stdev_UV stdevs))) (Some (arith_mean (map mean_UV stdevs)))),
      IR_perc_unc = np_mul_scalar (np_sqrt (column npix_IR table))
        (fl_div (Some (arith_mean (map stdev_IR stdevs))) (Some (arith_mean (map mean_IR stdevs)))),
      data_2 = np_mul_scalar (np_sub (column sum_UV table)
        (np_scalar_mul (Some (arith_mean (map mean_UV stdevs))) (column npix_UV table)))
        (Some ((3.365 * (10 powr (-5))) / (pi * 5 ^ 2))),
      UV_uncertainty = np_sqrt (np_add_scalar (np_sq (np_mul_scalar (np_sqrt (column npix_UV table))
        (fl_div (Some (arith_mean (map stdev_UV stdevs))) (Some (arith_mean (map mean_UV stdevs))))))
        (Some (0.03 ^ 2))),
      data_4 = np_mul_scalar (np_sub (column sum_IR table)
        (np_scalar_mul (Some (arith_mean (map mean_IR stdevs))) (column npix_IR table)))
        (Some ((10 ^ 6) / (4.25 * 10 ^ 10))),
      IR_uncertainty = np_sqrt (np_add_scalar (np_sq (np_mul_scalar (np_sqrt (column npix_IR table))
        (fl_div (Some (arith_mean (map stdev_IR stdevs))) (Some (arith_mean (map mean_IR stdevs))))))
        (Some (0.04 ^ 2))),
      log_UV_unc = np_scalar_mul (Some (1 / ln 10))
        (np_sqrt (np_add_scalar (np_sq (np_mul_scalar (np_sqrt (column npix_UV table))
        (fl_div (Some (arith_mean (map stdev_UV stdevs))) (Some (arith_mean (map mean_UV stdevs))))))
        (Some (0.03 ^ 2)))),
      log_IR_unc = np_scalar_mul (Some (1 / ln 10))
        (np_sqrt (np_add_scalar (np_sq (np_mul_scalar (np_sqrt (column npix_IR table))
        (fl_div (Some (arith_mean (map stdev_IR stdevs))) (Some (arith_mean (map mean_IR stdevs))))))
        (Some (0.04 ^ 2)))),
      returned = [np_mul_scalar (np_sub (column sum_UV table)
        (np_scalar_mul (Some (arith_mean (map mean_UV stdevs))) (column npix_UV table)))
        (Some ((3.365 * (10 powr (-5))) / (pi * 5 ^ 2))),
        np_mul_scalar (np_sub (column sum_IR table)
        (np_scalar_mul (Some (arith_mean (map mean_IR stdevs))) (column npix_IR table)))
        (Some ((10 ^ 6) / (4.25 * 10 ^ 10))),
        column galactocentric_radius table,
        np_scalar_mul (Some (1 / ln 10))
        (np_sqrt (np_add_scalar (np_sq (np_mul_scalar (np_sqrt (column npix_UV table))
        (fl_div (Some (arith_mean (map stdev_UV stdevs))) (Some (arith_mean (map mean_UV stdevs))))))
        (Some (0.03 ^ 2)))),
        np_scalar_mul (Some (1 / ln 10))
        (np_sqrt (np_add_scalar (np_sq (np_mul_scalar (np_sqrt (column npix_IR table))
        (fl_div (Some (arith_mean (map stdev_IR stdevs))) (Some (arith_mean (map mean_IR stdevs))))))
        (Some (0.04 ^ 2))))]\<rparr>"
    unfolding data_body_def
    by (simp only: td not_True_eq_False if_False py_mean_column[OF ne] sum.case Let_def sum.inject)
  show "UV_bckg_mean L = Some (arith_mean (map mean_UV stdevs))" by (subst L') simp
  show "IR_bckg_mean L = Some (arith_mean (map mean_IR stdevs))" by (subst L') simp
  show "data_2_subtracted L = np_sub (column sum_UV table) (np_scalar_mul (UV_bckg_mean L) (column npix_UV table))" by (subst (1 2) L') simp
  show "data_4_subtracted L = np_sub (column sum_IR table) (np_scalar_mul (IR_bckg_mean L) (column npix_IR table))" by (subst (1 2) L') simp
  show "UV_unc_perpix L = fl_div (Some (arith_mean (map stdev_UV stdevs))) (UV_bckg_mean L)" by (subst (1 2) L') simp
  show "IR_unc_perpix L = fl_div (Some (arith_mean (map stdev_IR stdevs))) (IR_bckg_mean L)" by (subst (1 2) L') simp
  show "UV_perc_unc L = np_mul_scalar (np_sqrt (column npix_UV table)) (UV_unc_perpix L)" by (subst (1 2) L') simp
  show "IR_perc_unc L = np_mul_scalar (np_sqrt (column npix_IR table)) (IR_unc_perpix L)" by (subst (1 2) L') simp
  show "data_2 L = np_mul_scalar (data_2_subtracted L) (Some ((3.365 * (10 powr (-5))) / (pi * 5 ^ 2)))" by (subst (1 2) L') simp
  show "data_4 L = np_mul_scalar (data_4_subtracted L) (Some ((10 ^ 6) / (4.25 * 10 ^ 10)))" by (subst (1 2) L') simp
  show "UV_uncertainty L = np_sqrt (np_add_scalar (np_sq (UV_perc_unc L)) (Some (0.03 ^ 2)))" by (subst (1 2) L') simp
  show "IR_uncertainty L = np_sqrt (np_add_scalar (np_sq (IR_perc_unc L)) (Some (0.04 ^ 2)))" by (subst (1 2) L') simp
  show "log_UV_unc L = np_scalar_mul (Some (1 / ln 10)) (UV_uncertainty L)" by (subst (1 2) L') simp
  show "log_IR_unc L = np_scalar_mul (Some (1 / ln 10)) (IR_uncertainty L)" by (subst (1 2) L') simp
  show "returned L = [data_2 L, data_4 L, column galactocentric_radius table, log_UV_unc L, log_IR_unc L]" by (subst (1 2 3 4 5) L') simp
qed

lemma np_mul_scalar_map_option:
  "np_mul_scalar arr (Some k) = map (map_option (\<lambda>v. v * k)) arr"
proof -
  have "fl_mul a (Some k) = map_option (\<lambda>v. v * k) a" for a
    by (cases a) simp_all
  then show ?thesis by (simp add: np_mul_scalar_def)
qed

lemma np_scalar_mul_map_option:
  "np_scalar_mul (Some k) arr = map (map_option (\<lambda>v. k * v)) arr"
proof -
  have "fl_mul (Some k) a = map_option (\<lambda>v. k * v) a" for a
    by (cases a) simp_all
  then show ?thesis by (simp add: np_scalar_mul_def)
qed

lemma region_uncertainty_code:
  "fl_sqrt (fl_add (fl_sq (fl_mul (fl_sqrt (Some npix)) (fl_div (Some sd) (Some level)))) (Some (cal ^ 2)))
   = region_uncertainty npix sd level cal"
proof -
  have nn: "\<not> a ^ 2 + cal ^ 2 < 0" for a :: real
    by (simp add: not_less)
  show ?thesis
    by (simp add: region_uncertainty_def in_quadrature_def nn)
qed

lemma uncertainty_columns:
  "np_sqrt (np_add_scalar (np_sq (np_mul_scalar (np_sqrt (column f t)) (fl_div (Some sd) (Some level)))) (Some (cal ^ 2)))
   = map (\<lambda>row. region_uncertainty (f row) sd level cal) t"
  by (simp add: np_sqrt_def np_add_scalar_def np_sq_def np_mul_scalar_def column_def comp_def
        region_uncertainty_code del: fl_sqrt.simps fl_add.simps fl_sq.simps fl_mul.simps fl_div.simps)

text \<open>Every local array of \<open>data\<close>, written out in the rows of the two tables.\<close>

lemma data_body_explicit:
  assumes "data_body table stdevs = Inr L"
  shows "data_2_subtracted L =
           map (\<lambda>row. Some (sum_UV row - arith_mean (map mean_UV stdevs) * npix_UV row)) table"
    and "data_4_subtracted L =
           map (\<lambda>row. Some (sum_IR row - arith_mean (map mean_IR stdevs) * npix_IR row)) table"
    and "data_2 L =
           map (\<lambda>row. Some ((sum_UV row - arith_mean (map mean_UV stdevs) * npix_UV row) *
                            ((3.365 * (10 powr (-5))) / (pi * 5 ^ 2)))) table"
    and "data_4 L =
           map (\<lambda>row. Some ((sum_IR row - arith_mean (map mean_IR stdevs) * npix_IR row) *
                            ((10 ^ 6) / (4.25 * 10 ^ 10)))) table"
    and "UV_uncertainty L =
           map (\<lambda>row. region_uncertainty (npix_UV row) (arith_mean (map stdev_UV stdevs))
                        (arith_mean (map mean_UV stdevs)) 0.03) table"
    and "IR_uncertainty L =
           map (\<lambda>row. region_uncertainty (npix_IR row) (arith_mean (map stdev_IR stdevs))
                        (arith_mean (map mean_IR stdevs)) 0.04) table"
    and "log_UV_unc L =
           map (\<lambda>row. map_option (\<lambda>u. 1 / ln 10 * u)
                        (region_uncertainty (npix_UV row) (arith_mean (map stdev_UV stdevs))
                           (arith_mean (map mean_UV stdevs)) 0.03)) table"
    and "log_IR_unc L =
           map (\<lambda>row. map_option (\<lambda>u. 1 / ln 10 * u)
                        (region_uncertainty (npix_IR row) (arith_mean (map stdev_IR stdevs))
                           (arith_mean (map mean_IR stdevs)) 0.04)) table"
proof -
  note f = data_body_fields[OF assms]
  show s2: "data_2_subtracted L =
           map (\<lambda>row. Some (sum_UV row - arith_mean (map mean_UV stdevs) * npix_UV row)) table"
    by (simp only: f(3) f(1) subtract_columns)
  show s4: "data_4_subtracted L =
           map (\<lambda>row. Some (sum_IR row - arith_mean (map mean_IR stdevs) * npix_IR row)) table"
    by (simp only: f(4) f(2) subtract_columns)
  show "data_2 L =
           map (\<lambda>row. Some ((sum_UV row - arith_mean (map mean_UV stdevs) * npix_UV row) *
                            ((3.365 * (10 powr (-5))) / (pi * 5 ^ 2)))) table"
    unfolding f(9) s2 np_mul_scalar_map_option by (simp add: comp_def)
  show "data_4 L =
           map (\<lambda>row. Some ((sum_IR row - arith_mean (map mean_IR stdevs) * npix_IR row) *
                            ((10 ^ 6) / (4.25 * 10 ^ 10)))) table"
    unfolding f(10) s4 np_mul_scalar_map_option by (simp add: comp_def)
  show u: "UV_uncertainty L =
           map (\<lambda>row. region_uncertainty (npix_UV row) (arith_mean (map stdev_UV stdevs))
                        (arith_mean (map mean_UV stdevs)) 0.03) table"
    by (simp only: f(11) f(7) f(5) f(1) uncertainty_columns)
  show i: "IR_uncertainty L =
           map (\<lambda>row. region_uncertainty (npix_IR row) (arith_mean (map stdev_IR stdevs))
                        (arith_mean (map mean_IR stdevs)) 0.04) table"
    by (simp only: f(12) f(8) f(6) f(2) uncertainty_columns)
  show "log_UV_unc L =
           map (\<lambda>row. map_option (\<lambda>u. 1 / ln 10 * u)
                        (region_uncertainty (npix_UV row) (arith_mean (map stdev_UV stdevs))
                           (arith_mean (map mean_UV stdevs)) 0.03)) table"
    unfolding f(13) u np_scalar_mul_map_option by (simp only: map_map comp_def)
  show "log_IR_unc L =
           map (\<lambda>row. map_option (\<lambda>u. 1 / ln 10 * u)
                        (region_uncertainty (npix_IR row) (arith_mean (map stdev_IR stdevs))
                           (arith_mean (map mean_IR stdevs)) 0.04)) table"
    unfolding f(14) i np_scalar_mul_map_option by (simp only: map_map comp_def)
qed

lemma data_Inr:
  assumes "emission_npix fs (galaxy @ ''_emission_npix.txt'') = Some table"
      and "Stdev_mean fs (galaxy @ ''_Stdev_mean.txt'') = Some stdevs"
      and "data_body table stdevs = Inr L"
  shows "data fs galaxy = Inr (returned L)"
  by (simp add: data_def assms)

lemma data_Inl:
  assumes "emission_npix fs (galaxy @ ''_emission_npix.txt'') = Some table"
      and "Stdev_mean fs (galaxy @ ''_Stdev_mean.txt'') = Some stdevs"
      and "data_body table stdevs = Inl e"
  shows "data fs galaxy = Inl e"
  by (simp add: data_def assms)

lemma returned_nth:
  assumes "data_body table stdevs = Inr L"
  shows "returned L ! 0 = data_2 L" "returned L ! 1 = data_4 L"
    "returned L ! 2 = column galactocentric_radius table"
    "returned L ! 3 = log_UV_unc L" "returned L ! 4 = log_IR_unc L"
    "length (returned L) = 5"
  by (simp_all add: data_body_fields(15)[OF assms])

text \<open>On files of one data row, or of the header alone, \<open>data\<close> raises \<open>IndexError\<close>.\<close>

lemma data_IndexError:
  assumes "emission_npix fs (galaxy @ ''_emission_npix.txt'') = Some table"
      and "Stdev_mean fs (galaxy @ ''_Stdev_mean.txt'') = Some stdevs"
      and "length stdevs < 2 \<or> length table < 2"
  shows "data fs galaxy = Inl IndexError"
proof (cases "length stdevs < 2")
  case True
  then have "data_body table stdevs = Inl IndexError"
    by (rule data_body_short_stdevs)
  with assms(1,2) show ?thesis by (rule data_Inl)
next
  case False
  with assms(3) have "2 \<le> length stdevs" "length table < 2" by auto
  then have "data_body table stdevs = Inl IndexError"
    by (rule data_body_short_table)
  with assms(1,2) show ?thesis by (rule data_Inl)
qed

lemma example_files:
  "emission_npix example_fs (''3938'' @ ''_emission_npix.txt'') = Some example_table"
  "Stdev_mean example_fs (''3938'' @ ''_Stdev_mean.txt'') = Some example_stdevs"
  "2 \<le> length example_table"
  "2 \<le> length example_stdevs"
  by (simp_all add: example_fs_def example_stdevs_def example_table_def)

lemma example_means:
  "arith_mean (map mean_UV example_stdevs) = 1"
  "arith_mean (map mean_IR example_stdevs) = 1"
  "arith_mean (map stdev_UV example_stdevs) = 2"
  "arith_mean (map stdev_IR example_stdevs) = 3"
  by (simp_all add: arith_mean_sum_list example_stdevs_def)

text \<open>
  C3. For a galaxy whose two files hold two-dimensional tables, \<open>data\<close> subtracts from
  each region's raw sum the mean background level times that region's pixel count, in
  both bands, the level being the mean of the background file's column of means; the
  returned fluxes are these differences times the calibration factors, which are applied
  afterwards.
\<close>

theorem data_subtracts_background:
  assumes "emission_npix fs (galaxy @ ''_emission_npix.txt'') = Some table"
      and "Stdev_mean fs (galaxy @ ''_Stdev_mean.txt'') = Some stdevs"
      and "2 \<le> length table"
      and "2 \<le> length stdevs"
  shows "\<exists>L. data_body table stdevs = Inr L \<and> data fs galaxy = Inr (returned L) \<and>
     data_2_subtracted L =
       map (\<lambda>row. Some (sum_UV row - arith_mean (map mean_UV stdevs) * npix_UV row)) table \<and>
     data_4_subtracted L =
       map (\<lambda>row. Some (sum_IR row - arith_mean (map mean_IR stdevs) * npix_IR row)) table \<and>
     returned L ! 0 =
       map (\<lambda>row. Some ((sum_UV row - arith_mean (map mean_UV stdevs) * npix_UV row) *
                        ((3.365 * (10 powr (-5))) / (pi * 5 ^ 2)))) table \<and>
     returned L ! 1 =
       map (\<lambda>row. Some ((sum_IR row - arith_mean (map mean_IR stdevs) * npix_IR row) *
                        ((10 ^ 6) / (4.25 * 10 ^ 10)))) table"
proof -
  from data_body_Inr[OF assms(4,3)] obtain L where L: "data_body table stdevs = Inr L" by blast
  note e = data_body_explicit[OF L] and n = returned_nth[OF L]
  have "data fs galaxy = Inr (returned L)" using assms(1,2) L by (rule data_Inr)
  with L e(1,2) e(3)[folded n(1)] e(4)[folded n(2)] show ?thesis by blast
qed

theorem data_subtracts_background_witness:
  "emission_npix example_fs (''3938'' @ ''_emission_npix.txt'') = Some example_table \<and>
   Stdev_mean example_fs (''3938'' @ ''_Stdev_mean.txt'') = Some example_stdevs \<and>
   2 \<le> length example_table \<and> 2 \<le> length example_stdevs \<and>
   (\<exists>L. data_body example_table example_stdevs = Inr L \<and>
        data example_fs ''3938'' = Inr (returned L) \<and>
        data_2_subtracted L = [Some 1, Some 10] \<and>
        data_4_subtracted L = [Some 1, Some 100] \<and>
        returned L ! 0 = [Some (1 * UV_factor), Some (10 * UV_factor)] \<and>
        returned L ! 1 = [Some (1 * IR_factor), Some (100 * IR_factor)])"
proof -
  from data_subtracts_background[OF example_files] obtain L where
    L: "data_body example_table example_stdevs = Inr L"
       "data example_fs ''3938'' = Inr (returned L)"
       "data_2_subtracted L =
          map (\<lambda>row. Some (sum_UV row - arith_mean (map mean_UV example_stdevs) * npix_UV row)) example_table"
       "data_4_subtracted L =
          map (\<lambda>row. Some (sum_IR row - arith_mean (map mean_IR example_stdevs) * npix_IR row)) example_table"
       "returned L ! 0 =
          map (\<lambda>row. Some ((sum_UV row - arith_mean (map mean_UV example_stdevs) * npix_UV row) *
                        ((3.365 * (10 powr (-5))) / (pi * 5 ^ 2)))) example_table"
       "returned L ! 1 =
          map (\<lambda>row. Some ((sum_IR row - arith_mean (map mean_IR example_stdevs) * npix_IR row) *
                        ((10 ^ 6) / (4.25 * 10 ^ 10)))) example_table"
    by blast
  have "data_2_subtracted L = [Some 1, Some 10]" "data_4_subtracted L = [Some 1, Some 100]"
    unfolding L(3,4) example_means by (simp_all add: example_table_def)
  moreover have "returned L ! 0 = [Some (1 * UV_factor), Some (10 * UV_factor)]"
    unfolding L(5) example_means UV_factor_def[symmetric] by (simp add: example_table_def)
  moreover have "returned L ! 1 = [Some (1 * IR_factor), Some (100 * IR_factor)]"
    unfolding L(6) example_means IR_factor_def[symmetric] by (simp add: example_table_def)
  ultimately show ?thesis using L(1,2) example_files by blast
qed

lemma UV_calibration_value: "(3.365 * (10 powr (-5))) / (pi * 5 ^ 2) = (0.00003365 / (pi * 5 ^ 2) :: real)"
  by (simp add: powr_neg_numeral)

lemma IR_calibration_value: "(10 ^ 6) / (4.25 * 10 ^ 10) = (1000000 / 42500000000 :: real)"
  by simp

text \<open>
  C4. After the background subtraction the values are converted by fixed constants,
  whatever the input: each ultraviolet value is multiplied by \<open>3.365e-5 / (pi * 5^2)\<close> and
  each infrared value by \<open>1e6 / 4.25e10\<close>, and these products are the first two arrays
  \<open>data\<close> returns.
\<close>

theorem data_calibration_constants:
  assumes "emission_npix fs (galaxy @ ''_emission_npix.txt'') = Some table"
      and "Stdev_mean fs (galaxy @ ''_Stdev_mean.txt'') = Some stdevs"
      and "2 \<le> length table"
      and "2 \<le> length stdevs"
  shows "\<exists>res. data fs galaxy = Inr res \<and>
     res ! 0 =
       map (\<lambda>row. Some ((sum_UV row - arith_mean (map mean_UV stdevs) * npix_UV row) *
                        (0.00003365 / (pi * 5 ^ 2)))) table \<and>
     res ! 1 =
       map (\<lambda>row. Some ((sum_IR row - arith_mean (map mean_IR stdevs) * npix_IR row) *
                        (1000000 / 42500000000))) table"
proof -
  from data_body_Inr[OF assms(4,3)] obtain L where L: "data_body table stdevs = Inr L" by blast
  note e = data_body_explicit[OF L] and n = returned_nth[OF L]
  have "data fs galaxy = Inr (returned L)" using assms(1,2) L by (rule data_Inr)
  moreover have "returned L ! 0 =
       map (\<lambda>row. Some ((sum_UV row - arith_mean (map mean_UV stdevs) * npix_UV row) *
                        (0.00003365 / (pi * 5 ^ 2)))) table"
    unfolding n(1) e(3) UV_calibration_value ..
  moreover have "returned L ! 1 =
       map (\<lambda>row. Some ((sum_IR row - arith_mean (map mean_IR stdevs) * npix_IR row) *
                        (1000000 / 42500000000))) table"
    unfolding n(2) e(4) IR_calibration_value ..
  ultimately show ?thesis by blast
qed

theorem data_calibration_constants_witness:
  "emission_npix example_fs (''3938'' @ ''_emission_npix.txt'') = Some example_table \<and>
   Stdev_mean example_fs (''3938'' @ ''_Stdev_mean.txt'') = Some example_stdevs \<and>
   2 \<le> length example_table \<and> 2 \<le> length example_stdevs \<and>
   (\<exists>res. data example_fs ''3938'' = Inr res \<and>
        res ! 0 = [Some (1 * (0.00003365 / (pi * 5 ^ 2))), Some (10 * (0.00003365 / (pi * 5 ^ 2)))] \<and>
        res ! 1 = [Some (1 * (1000000 / 42500000000)), Some (100 * (1000000 / 42500000000))])"
proof -
  from data_calibration_constants[OF example_files] obtain res where
    r: "data example_fs ''3938'' = Inr res"
       "res ! 0 =
         map (\<lambda>row. Some ((sum_UV row - arith_mean (map mean_UV example_stdevs) * npix_UV row) *
                        (0.00003365 / (pi * 5 ^ 2)))) example_table"
       "res ! 1 =
         map (\<lambda>row. Some ((sum_IR row - arith_mean (map mean_IR example_stdevs) * npix_IR row) *
                        (1000000 / 42500000000))) example_table"
    by blast
  have "res ! 0 = [Some (1 * (0.00003365 / (pi * 5 ^ 2))), Some (10 * (0.00003365 / (pi * 5 ^ 2)))]"
    unfolding r(2) example_means by (simp add: example_table_def)
  moreover have "res ! 1 = [Some (1 * (1000000 / 42500000000)), Some (100 * (1000000 / 42500000000))]"
    unfolding r(3) example_means by (simp add: example_table_def)
  ultimately show ?thesis using r(1) example_files by blast
qed

text \<open>
  C5. The fractional uncertainty of each region is the square root of its pixel count
  times the per-pixel uncertainty (mean background standard deviation over mean
  background level), combined in quadrature with the calibration uncertainty 0.03
  (ultraviolet) or 0.04 (infrared).
\<close>

theorem data_fractional_uncertainty:
  assumes "emission_npix fs (galaxy @ ''_emission_npix.txt'') = Some table"
      and "Stdev_mean fs (galaxy @ ''_Stdev_mean.txt'') = Some stdevs"
      and "2 \<le> length table"
      and "2 \<le> length stdevs"
  shows "\<exists>L. data_body table stdevs = Inr L \<and> data fs galaxy = Inr (returned L) \<and>
     UV_uncertainty L =
       map (\<lambda>row. region_uncertainty (npix_UV row) (arith_mean (map stdev_UV stdevs))
                    (arith_mean (map mean_UV stdevs)) 0.03) table \<and>
     IR_uncertainty L =
       map (\<lambda>row. region_uncertainty (npix_IR row) (arith_mean (map stdev_IR stdevs))
                    (arith_mean (map mean_IR stdevs)) 0.04) table"
proof -
  from data_body_Inr[OF assms(4,3)] obtain L where L: "data_body table stdevs = Inr L" by blast
  note e = data_body_explicit[OF L]
  have "data fs galaxy = Inr (returned L)" using assms(1,2) L by (rule data_Inr)
  with L e(5,6) show ?thesis by blast
qed

theorem data_fractional_uncertainty_witness:
  "emission_npix example_fs (''3938'' @ ''_emission_npix.txt'') = Some example_table \<and>
   Stdev_mean example_fs (''3938'' @ ''_Stdev_mean.txt'') = Some example_stdevs \<and>
   2 \<le> length example_table \<and> 2 \<le> length example_stdevs \<and>
   (\<exists>L. data_body example_table example_stdevs = Inr L \<and>
        data example_fs ''3938'' = Inr (returned L) \<and>
        UV_uncertainty L = [Some (sqrt (16 + 0.03 ^ 2)), Some (sqrt (16 + 0.03 ^ 2))] \<and>
        IR_uncertainty L = [Some (sqrt (36 + 0.04 ^ 2)), Some (sqrt (36 + 0.04 ^ 2))])"
proof -
  from data_fractional_uncertainty[OF example_files] obtain L where
    L: "data_body example_table example_stdevs = Inr L"
       "data example_fs ''3938'' = Inr (returned L)"
       "UV_uncertainty L =
         map (\<lambda>row. region_uncertainty (npix_UV row) (arith_mean (map stdev_UV example_stdevs))
                    (arith_mean (map mean_UV example_stdevs)) 0.03) example_table"
       "IR_uncertainty L =
         map (\<lambda>row. region_uncertainty (npix_IR row) (arith_mean (map stdev_IR example_stdevs))
                    (arith_mean (map mean_IR example_stdevs)) 0.04) example_table"
    by blast
  have s: "sqrt 4 = 2" by simp
  have "UV_uncertainty L = [Some (sqrt (16 + 0.03 ^ 2)), Some (sqrt (16 + 0.03 ^ 2))]"
       "IR_uncertainty L = [Some (sqrt (36 + 0.04 ^ 2)), Some (sqrt (36 + 0.04 ^ 2))]"
    unfolding L(3,4) example_means
    by (simp_all add: example_table_def region_uncertainty_def in_quadrature_def s)
  with L(1,2) example_files show ?thesis by blast
qed

text \<open>
  C6. The uncertainties in log space are the fractional ones of C5 times \<open>1 / ln 10\<close>, in
  both bands, and they are the last two of the five arrays \<open>data\<close> returns.
\<close>

theorem data_log_uncertainty:
  assumes "emission_npix fs (galaxy @ ''_emission_npix.txt'') = Some table"
      and "Stdev_mean fs (galaxy @ ''_Stdev_mean.txt'') = Some stdevs"
      and "2 \<le> length table"
      and "2 \<le> length stdevs"
  shows "\<exists>L. data_body table stdevs = Inr L \<and> data fs galaxy = Inr (returned L) \<and>
     log_UV_unc L = map (map_option (\<lambda>u. 1 / ln 10 * u)) (UV_uncertainty L) \<and>
     log_IR_unc L = map (map_option (\<lambda>u. 1 / ln 10 * u)) (IR_uncertainty L) \<and>
     length (returned L) = 5 \<and>
     drop 3 (returned L) =
       [map (\<lambda>row. map_option (\<lambda>u. 1 / ln 10 * u)
                     (region_uncertainty (npix_UV row) (arith_mean (map stdev_UV stdevs))
                        (arith_mean (map mean_UV stdevs)) 0.03)) table,
        map (\<lambda>row. map_option (\<lambda>u. 1 / ln 10 * u)
                     (region_uncertainty (npix_IR row) (arith_mean (map stdev_IR stdevs))
                        (arith_mean (map mean_IR stdevs)) 0.04)) table]"
proof -
  from data_body_Inr[OF assms(4,3)] obtain L where L: "data_body table stdevs = Inr L" by blast
  note e = data_body_explicit[OF L] and f = data_body_fields[OF L]
  have "data fs galaxy = Inr (returned L)" using assms(1,2) L by (rule data_Inr)
  moreover have "log_UV_unc L = map (map_option (\<lambda>u. 1 / ln 10 * u)) (UV_uncertainty L)"
    by (simp only: f(13) np_scalar_mul_map_option)
  moreover have "log_IR_unc L = map (map_option (\<lambda>u. 1 / ln 10 * u)) (IR_uncertainty L)"
    by (simp only: f(14) np_scalar_mul_map_option)
  moreover have "length (returned L) = 5" by (simp add: f(15))
  moreover have "drop 3 (returned L) =
       [map (\<lambda>row. map_option (\<lambda>u. 1 / ln 10 * u)
                     (region_uncertainty (npix_UV row) (arith_mean (map stdev_UV stdevs))
                        (arith_mean (map mean_UV stdevs)) 0.03)) table,
        map (\<lambda>row. map_option (\<lambda>u. 1 / ln 10 * u)
                     (region_uncertainty (npix_IR row) (arith_mean (map stdev_IR stdevs))
                        (arith_mean (map mean_IR stdevs)) 0.04)) table]"
  proof -
    have "drop 3 (returned L) = [log_UV_unc L, log_IR_unc L]" by (simp add: f(15))
    then show ?thesis by (simp only: e(7) e(8))
  qed
  ultimately show ?thesis using L by blast
qed

theorem data_log_uncertainty_witness:
  "emission_npix example_fs (''3938'' @ ''_emission_npix.txt'') = Some example_table \<and>
   Stdev_mean example_fs (''3938'' @ ''_Stdev_mean.txt'') = Some example_stdevs \<and>
   2 \<le> length example_table \<and> 2 \<le> length example_stdevs \<and>
   (\<exists>L. data_body example_table example_stdevs = Inr L \<and>
        data example_fs ''3938'' = Inr (returned L) \<and>
        log_UV_unc L = map (map_option (\<lambda>u. 1 / ln 10 * u)) (UV_uncertainty L) \<and>
        log_IR_unc L = map (map_option (\<lambda>u. 1 / ln 10 * u)) (IR_uncertainty L) \<and>
        length (returned L) = 5 \<and>
        drop 3 (returned L) =
          [[Some (1 / ln 10 * sqrt (16 + 0.03 ^ 2)), Some (1 / ln 10 * sqrt (16 + 0.03 ^ 2))],
           [Some (1 / ln 10 * sqrt (36 + 0.04 ^ 2)), Some (1 / ln 10 * sqrt (36 + 0.04 ^ 2))]])"
proof -
  from data_log_uncertainty[OF example_files] obtain L where
    r: "data_body example_table example_stdevs = Inr L"
       "data example_fs ''3938'' = Inr (returned L)"
       "log_UV_unc L = map (map_option (\<lambda>u. 1 / ln 10 * u)) (UV_uncertainty L)"
       "log_IR_unc L = map (map_option (\<lambda>u. 1 / ln 10 * u)) (IR_uncertainty L)"
       "length (returned L) = 5"
       "drop 3 (returned L) =
       [map (\<lambda>row. map_option (\<lambda>u. 1 / ln 10 * u)
                     (region_uncertainty (npix_UV row) (arith_mean (map stdev_UV example_stdevs))
                        (arith_mean (map mean_UV example_stdevs)) 0.03)) example_table,
        map (\<lambda>row. map_option (\<lambda>u. 1 / ln 10 * u)
                     (region_uncertainty (npix_IR row) (arith_mean (map stdev_IR example_stdevs))
                        (arith_mean (map mean_IR example_stdevs)) 0.04)) example_table]"
    by blast
  have s: "sqrt 4 = 2" by simp
  have "drop 3 (returned L) =
          [[Some (1 / ln 10 * sqrt (16 + 0.03 ^ 2)), Some (1 / ln 10 * sqrt (16 + 0.03 ^ 2))],
           [Some (1 / ln 10 * sqrt (36 + 0.04 ^ 2)), Some (1 / ln 10 * sqrt (36 + 0.04 ^ 2))]]"
    unfolding r(6) example_means
    by (simp add: example_table_def region_uncertainty_def in_quadrature_def s)
  with r(1,2,3,4,5) example_files show ?thesis by blast
qed

section \<open>Facts about the plots\<close>

lemma corr_coeff_two_points:
  assumes "a1 \<noteq> a2" "b1 \<noteq> b2"
  shows "corr_coeff [Some a1, Some a2] [Some b1, Some b2] = Inr (Some (sgn ((a2 - a1) * (b2 - b1))))"
proof -
  define t where "t = (a2 - a1) * (b2 - b1) / 2"
  have t0: "t \<noteq> 0" using assms by (simp add: t_def)
  have sa: "sq_dev [a1, a2] = (a2 - a1) ^ 2 / 2"
    by (simp add: sq_dev_def power2_eq_square field_simps)
  have sb: "sq_dev [b1, b2] = (b2 - b1) ^ 2 / 2"
    by (simp add: sq_dev_def power2_eq_square field_simps)
  have "sq_dev [a1, a2] * sq_dev [b1, b2] = t ^ 2"
    unfolding sa sb t_def by (simp add: power2_eq_square)
  then have bot: "sqrt (sq_dev [a1, a2] * sq_dev [b1, b2]) = \<bar>t\<bar>" by simp
  have top: "sum_list (map2 (*) (devs [a1, a2]) (devs [b1, b2])) = t"
    by (simp add: devs_def t_def field_simps)
  have "corr_coeff (map Some [a1, a2]) (map Some [b1, b2]) = Inr (Some (t / \<bar>t\<bar>))"
    using t0 by (subst corr_coeff_finite) (simp_all only: bot top, simp_all)
  moreover have "t / \<bar>t\<bar> = sgn t" by (simp add: sgn_real_def) 
  moreover have "sgn t = sgn ((a2 - a1) * (b2 - b1))" by (simp add: t_def sgn_mult sgn_divide)
  ultimately show ?thesis by simp
qed

lemma coefficients_increasing_decreasing:
  assumes "0 < c" "0 < d"
  shows "coefficients [Some c, Some (10 * c)] [Some d, Some (100 * d)] [Some 2, Some 1] =
         Inr (Some 1, Some (- 1))"
proof -
  have lx: "np_log10 [Some c, Some (10 * c)] = [Some (log 10 c), Some (log 10 (10 * c))]"
    using assms by (simp add: np_log10_def not_le)
  have ly: "np_log10 [Some d, Some (100 * d)] = [Some (log 10 d), Some (log 10 (100 * d))]"
    using assms by (simp add: np_log10_def not_le)
  have q: "np_div [Some d, Some (100 * d)] [Some c, Some (10 * c)] = [Some (d / c), Some (10 * (d / c))]"
    using assms by (simp add: np_div_def)
  have dc: "0 < d / c" using assms by simp
  have lq: "np_log10 [Some (d / c), Some (10 * (d / c))] =
            [Some (log 10 (d / c)), Some (log 10 (10 * (d / c)))]"
    using dc by (simp add: np_log10_def not_le)
  have inc: "log 10 p < log 10 (k * p)" if "0 < p" "1 < k" for p k :: real
    using that by (subst log_less_cancel_iff) simp_all
  have x: "log 10 c < log 10 (10 * c)" using inc[of c 10] assms by simp
  have y: "log 10 d < log 10 (100 * d)" using inc[of d 100] assms by simp
  have z: "log 10 (d / c) < log 10 (10 * (d / c))" using inc[of "d / c" 10] dc by simp
  have c1: "corr_coeff [Some (log 10 c), Some (log 10 (10 * c))]
                       [Some (log 10 d), Some (log 10 (100 * d))] = Inr (Some 1)"
    using x y by (subst corr_coeff_two_points) (simp_all add: sgn_real_def mult_pos_pos)
  have c2: "corr_coeff [Some 2, Some 1]
                       [Some (log 10 (d / c)), Some (log 10 (10 * (d / c)))] = Inr (Some (- 1))"
    using z by (subst corr_coeff_two_points) (simp_all add: sgn_real_def)
  show ?thesis
    unfolding coefficients_def by (simp only: lx ly q lq c1 c2 sum.case)
qed

lemma example_data:
  "\<exists>c d lu li. 0 < c \<and> 0 < d \<and>
     data example_fs ''3938'' =
       Inr [[Some c, Some (10 * c)], [Some d, Some (100 * d)], [Some 2, Some 1], lu, li]"
proof -
  from data_body_Inr[OF example_files(4,3)] obtain L where
    L: "data_body example_table example_stdevs = Inr L" by blast
  note f = data_body_fields[OF L]
  define c :: real where "c = (3.365 * (10 powr (-5))) / (pi * 5 ^ 2)"
  define d :: real where "d = (10 ^ 6) / (4.25 * 10 ^ 10)"
  have c: "0 < c" unfolding c_def by (simp add: powr_neg_numeral)
  have d: "0 < d" unfolding d_def by simp
  have s2: "data_2_subtracted L = [Some 1, Some 10]"
    by (simp only: f(3) f(1) subtract_columns example_means) (simp add: example_table_def)
  have s4: "data_4_subtracted L = [Some 1, Some 100]"
    by (simp only: f(4) f(2) subtract_columns example_means) (simp add: example_table_def)
  have d2: "data_2 L = [Some c, Some (10 * c)]"
    unfolding f(9) s2 c_def[symmetric] by (simp add: np_mul_scalar_def)
  have d4: "data_4 L = [Some d, Some (100 * d)]"
    unfolding f(10) s4 d_def[symmetric] by (simp add: np_mul_scalar_def)
  have r: "column galactocentric_radius example_table = [Some 2, Some 1]"
    by (simp add: column_def example_table_def)
  have "data example_fs ''3938'' = Inr (returned L)"
    using example_files(1,2) L by (rule data_Inr)
  then have "data example_fs ''3938'' =
      Inr [[Some c, Some (10 * c)], [Some d, Some (100 * d)], [Some 2, Some 1], log_UV_unc L, log_IR_unc L]"
    by (simp only: f(15) d2 d4 r)
  with c d show ?thesis by blast
qed

lemma example_plot:
  "\<exists>x y r t out.
     pool example_fs [''3938''] ([], [], [], []) = Inr (x, y, r, t) \<and>
     coefficients x y r = Inr (Some 1, Some (- 1)) \<and>
     plot example_str example_fs [''3938''] None = Inr out \<and>
     fig_legend (shown out ! 0) = Legend_texts [''r = 1.0''] \<and>
     fig_legend (shown out ! 1) = Legend_texts [''r = 1.0''] \<and>
     printed out = []"
proof -
  from example_data obtain c d lu li where cd: "0 < c" "0 < d" and
    D: "data example_fs ''3938'' =
       Inr [[Some c, Some (10 * c)], [Some d, Some (100 * d)], [Some 2, Some 1], lu, li]"
    by blast
  have p: "pool example_fs [''3938''] ([], [], [], []) =
      Inr ([Some c, Some (10 * c)], [Some d, Some (100 * d)], [Some 2, Some 1], ''NGC 3938  '')"
    by (simp add: D)
  note co = coefficients_increasing_decreasing[OF cd]
  obtain calls1 where g1: "first_graph example_fs None [''3938''] 0 [] = Inr calls1"
    by (simp add: D)
  obtain calls2 where g2: "second_graph example_fs None [''3938''] 0 [] = Inr calls2"
    by (simp add: D)
  have pl: "plot example_str example_fs [''3938''] None =
     Inr \<lparr>shown = [\<lparr>fig_calls = calls1, fig_title = ''NGC 3938  '',
                  fig_xlabel = ''log(UV flux density)'',
                  fig_ylabel = ''log(IR flux density)'',
                  fig_legend = Legend_texts [''r = 1.0'']\<rparr>,
                   \<lparr>fig_calls = calls2, fig_title = ''NGC 3938  '',
                  fig_xlabel = ''galactocentric radius (arcsec)'',
                  fig_ylabel = ''log(IR flux density/UV flux density)'',
                  fig_legend = Legend_texts [''r = 1.0'']\<rparr>], printed = []\<rparr>"
    unfolding plot_def p sum.case prod.case co g1 g2 by (simp add: example_str_def Let_def)
  show ?thesis
    using p co pl by simp
qed

lemma example_plot_colours:
  "\<exists>out. plot example_str example_fs [''3938''] (Some [''r'']) = Inr out \<and>
     fig_legend (shown out ! 0) = Legend_of_labels \<and>
     fig_legend (shown out ! 1) = Legend_of_labels \<and>
     printed out = [''First graph: r = 1.0'', ''Second graph: r = -1.0'']"
proof -
  from example_data obtain c d lu li where cd: "0 < c" "0 < d" and
    D: "data example_fs ''3938'' =
       Inr [[Some c, Some (10 * c)], [Some d, Some (100 * d)], [Some 2, Some 1], lu, li]"
    by blast
  have p: "pool example_fs [''3938''] ([], [], [], []) =
      Inr ([Some c, Some (10 * c)], [Some d, Some (100 * d)], [Some 2, Some 1], ''NGC 3938  '')"
    by (simp add: D)
  note co = coefficients_increasing_decreasing[OF cd]
  obtain calls1 where g1: "first_graph example_fs (Some [''r'']) [''3938''] 0 [] = Inr calls1"
    by (simp add: D py_index_def)
  obtain calls2 where g2: "second_graph example_fs (Some [''r'']) [''3938''] 0 [] = Inr calls2"
    by (simp add: D py_index_def)
  show ?thesis
    unfolding plot_def p sum.case prod.case co g1 g2 by (simp add: example_str_def Let_def)
qed

text \<open>Without \<open>colours\<close> the two figures of any call get the same legend.\<close>

lemma plot_legends_without_colours:
  assumes "plot str fs galaxies colours = Inr out" and "\<not> truthy colours"
  shows "fig_legend (shown out ! 1) = fig_legend (shown out ! 0)"
  using assms unfolding plot_def
  by (auto simp: Let_def split: sum.splits prod.splits)

text \<open>
  C2. Without \<open>colours\<close> each plot should carry, in its legend, the coefficient of its own
  data, as the printed lines do when \<open>colours\<close> is given. The code passes \<open>r1\<close> to the
  legend of both plots. On the example input the coefficient of the first plot is 1 and
  that of the second is -1; a call without \<open>colours\<close> prints nothing and puts \<open>r = 1.0\<close>
  in both legends, so the second plot is annotated with the coefficient of the first.
\<close>

theorem plot_second_legend_shows_first_coefficient:
  "\<exists>x y r t out.
     pool example_fs [''3938''] ([], [], [], []) = Inr (x, y, r, t) \<and>
     coefficients x y r = Inr (Some 1, Some (- 1)) \<and>
     plot example_str example_fs [''3938''] None = Inr out \<and>
     fig_legend (shown out ! 0) = Legend_texts [''r = '' @ example_str (Some 1)] \<and>
     fig_legend (shown out ! 1) = Legend_texts [''r = '' @ example_str (Some 1)] \<and>
     fig_legend (shown out ! 1) \<noteq> Legend_texts [''r = '' @ example_str (Some (- 1))] \<and>
     printed out = []"
proof -
  from example_plot obtain x y r t out where
    e: "pool example_fs [''3938''] ([], [], [], []) = Inr (x, y, r, t)"
       "coefficients x y r = Inr (Some 1, Some (- 1))"
       "plot example_str example_fs [''3938''] None = Inr out"
       "fig_legend (shown out ! 0) = Legend_texts [''r = 1.0'']"
       "fig_legend (shown out ! 1) = Legend_texts [''r = 1.0'']"
       "printed out = []"
    by blast
  have s1: "''r = '' @ example_str (Some 1) = ''r = 1.0''"
    by (simp add: example_str_def)
  have s2: "''r = '' @ example_str (Some (- 1)) = ''r = -1.0''"
    by (simp add: example_str_def)
  have "fig_legend (shown out ! 1) \<noteq> Legend_texts [''r = -1.0'']"
    unfolding e(5) by simp
  with e show ?thesis unfolding s1 s2 by blast
qed

lemma pool_concat:
  assumes "pool fs galaxies (x, y, r, t) = Inr res"
  shows "\<exists>ds. map (data fs) galaxies = map Inr ds \<and>
     res = (x @ concat (map (\<lambda>d. d ! 0) ds), y @ concat (map (\<lambda>d. d ! 1) ds),
            r @ concat (map (\<lambda>d. d ! 2) ds),
            t @ concat (map (\<lambda>i. ''NGC '' @ i @ ''  '') galaxies))"
  using assms
proof (induction galaxies arbitrary: x y r t)
  case Nil
  then show ?case by auto
next
  case (Cons i galaxies)
  from Cons.prems obtain d where d: "data fs i = Inr d"
    by (cases "data fs i") simp_all
  with Cons.prems have
    "pool fs galaxies (x @ d ! 0, y @ d ! 1, r @ d ! 2, t @ ''NGC '' @ i @ ''  '') = Inr res"
    by simp
  from Cons.IH[OF this] obtain ds where
    ds: "map (data fs) galaxies = map Inr ds"
        "res = ((x @ d ! 0) @ concat (map (\<lambda>d. d ! 0) ds), (y @ d ! 1) @ concat (map (\<lambda>d. d ! 1) ds),
            (r @ d ! 2) @ concat (map (\<lambda>d. d ! 2) ds),
            (t @ ''NGC '' @ i @ ''  '') @ concat (map (\<lambda>i. ''NGC '' @ i @ ''  '') galaxies))"
    by blast
  show ?case
    by (rule exI[of _ "d # ds"]) (simp add: d ds)
qed

text \<open>
  Two arrays that are affine functions of one array, neither with slope zero, have the
  coefficient 1 or -1, by the sign of the product of the slopes.
\<close>

lemma sum_list_affine:
  "sum_list (map (\<lambda>k. p + q * k) ks) = real (length ks) * p + q * sum_list ks"
  for p q :: real
  by (induction ks) (simp_all add: algebra_simps)

lemma devs_affine:
  assumes "ks \<noteq> []"
  shows "devs (map (\<lambda>k. p + q * k) ks) = map (\<lambda>k. q * (k - sum_list ks / real (length ks))) ks"
proof -
  from assms have n: "real (length ks) \<noteq> 0" by simp
  have "(real (length ks) * p + q * sum_list ks) / real (length ks) =
        p + q * (sum_list ks / real (length ks))"
    using n by (simp add: field_simps)
  then have "sum_list (map (\<lambda>k. p + q * k) ks) / real (length ks) =
        p + q * (sum_list ks / real (length ks))"
    by (simp only: sum_list_affine)
  then show ?thesis
    by (simp add: devs_def comp_def algebra_simps)
qed

lemma sq_dev_affine:
  assumes "ks \<noteq> []"
  shows "sq_dev (map (\<lambda>k. p + q * k) ks) = q ^ 2 * sq_dev ks"
proof -
  have "sq_dev (map (\<lambda>k. p + q * k) ks) =
        (\<Sum>k\<leftarrow>ks. q ^ 2 * (k - sum_list ks / real (length ks)) ^ 2)"
    unfolding sq_dev_devs[symmetric] devs_affine[OF assms]
    by (simp add: comp_def power_mult_distrib)
  also have "\<dots> = q ^ 2 * sq_dev ks"
    unfolding sq_dev_def by (rule sum_list_const_mult)
  finally show ?thesis .
qed

lemma devs_prod_affine:
  assumes "ks \<noteq> []"
  shows "sum_list (map2 (*) (devs (map (\<lambda>k. p + q * k) ks)) (devs (map (\<lambda>k. p' + q' * k) ks))) =
         q * q' * sq_dev ks"
proof -
  have "sum_list (map2 (*) (devs (map (\<lambda>k. p + q * k) ks)) (devs (map (\<lambda>k. p' + q' * k) ks))) =
        (\<Sum>k\<leftarrow>ks. (q * q') * (k - sum_list ks / real (length ks)) ^ 2)"
    unfolding devs_affine[OF assms] map2_same
    by (simp add: power2_eq_square algebra_simps)
  also have "\<dots> = q * q' * sq_dev ks"
    unfolding sq_dev_def by (rule sum_list_const_mult)
  finally show ?thesis .
qed

lemma corr_coeff_affine:
  assumes "ks \<noteq> []" and "sq_dev ks \<noteq> 0" and "q \<noteq> 0" and "q' \<noteq> 0"
  shows "corr_coeff (map Some (map (\<lambda>k. p + q * k) ks)) (map Some (map (\<lambda>k. p' + q' * k) ks)) =
         Inr (Some (sgn (q * q')))"
proof -
  define t where "t = q * q' * sq_dev ks"
  have S: "0 < sq_dev ks" using assms(2) sq_dev_nonneg[of ks] by simp
  have t0: "t \<noteq> 0" using assms S by (simp add: t_def)
  have "sq_dev (map (\<lambda>k. p + q * k) ks) * sq_dev (map (\<lambda>k. p' + q' * k) ks) = t ^ 2"
    unfolding sq_dev_affine[OF assms(1)] t_def by (simp add: power2_eq_square)
  then have bot: "sqrt (sq_dev (map (\<lambda>k. p + q * k) ks) * sq_dev (map (\<lambda>k. p' + q' * k) ks)) = \<bar>t\<bar>"
    by simp
  have top: "sum_list (map2 (*) (devs (map (\<lambda>k. p + q * k) ks)) (devs (map (\<lambda>k. p' + q' * k) ks))) = t"
    unfolding t_def by (rule devs_prod_affine[OF assms(1)])
  have "corr_coeff (map Some (map (\<lambda>k. p + q * k) ks)) (map Some (map (\<lambda>k. p' + q' * k) ks)) =
        Inr (Some (t / \<bar>t\<bar>))"
    using t0 assms(1) by (subst corr_coeff_finite) (simp_all only: bot top, simp_all)
  moreover have "t / \<bar>t\<bar> = sgn t" by (simp add: sgn_real_def)
  moreover have "sgn t = sgn (q * q')" using S by (simp add: t_def sgn_mult)
  ultimately show ?thesis by simp
qed

text \<open>The pooled arrays of the call on the two galaxies, and their two coefficients.\<close>

lemma log10_times_power:
  assumes "0 < c"
  shows "log 10 (100 * c) = log 10 c + 2" and "log 10 (10000 * c) = log 10 c + 4"
    and "log 10 (10 * c) = log 10 c + 1"
    and "log 10 (c / 10) = log 10 c - 1" and "log 10 (c / 100) = log 10 c - 2"
proof -
  have p: "log 10 ((10::real) ^ n) = real n" for n
    by (rule log_pow_cancel) simp_all
  have l2: "log 10 (100::real) = 2" using p[of 2] by simp
  have l4: "log 10 (10000::real) = 4" using p[of 4] by simp
  show "log 10 (100 * c) = log 10 c + 2" using assms by (simp add: log_mult_pos l2)
  show "log 10 (10000 * c) = log 10 c + 4" using assms by (simp add: log_mult_pos l4)
  show "log 10 (10 * c) = log 10 c + 1" using assms by (simp add: log_mult_pos)
  show "log 10 (c / 10) = log 10 c - 1" using assms by (simp add: log_divide_pos)
  show "log 10 (c / 100) = log 10 c - 2" using assms by (simp add: log_divide_pos l2)
qed

lemma coefficients_two_galaxies:
  assumes "0 < c" and "0 < d"
  shows "coefficients [Some c, Some (100 * c), Some (10000 * c), Some c]
           [Some d, Some (10 * d), Some (100 * d), Some d]
           [Some 0, Some 1, Some 2, Some 0] = Inr (Some 1, Some (- 1))"
proof -
  define ks :: "real list" where "ks = [0, 1, 2, 0]"
  have ne: "ks \<noteq> []" by (simp add: ks_def)
  have sq: "sq_dev ks \<noteq> 0" by (simp add: ks_def sq_dev_def power2_eq_square)
  have dc: "0 < d / c" using assms by simp
  have lx: "np_log10 [Some c, Some (100 * c), Some (10000 * c), Some c] =
            map Some (map (\<lambda>k. log 10 c + 2 * k) ks)"
    using assms(1) by (simp add: np_log10_def ks_def not_le log10_times_power)
  have ly: "np_log10 [Some d, Some (10 * d), Some (100 * d), Some d] =
            map Some (map (\<lambda>k. log 10 d + 1 * k) ks)"
    using assms(2) by (simp add: np_log10_def ks_def not_le log10_times_power)
  have q: "np_div [Some d, Some (10 * d), Some (100 * d), Some d]
                  [Some c, Some (100 * c), Some (10000 * c), Some c] =
           [Some (d / c), Some (d / c / 10), Some (d / c / 100), Some (d / c)]"
    using assms by (simp add: np_div_def)
  have lq: "np_log10 [Some (d / c), Some (d / c / 10), Some (d / c / 100), Some (d / c)] =
            map Some (map (\<lambda>k. log 10 (d / c) + (- 1) * k) ks)"
    using dc log10_times_power(4,5)[OF dc] by (simp add: np_log10_def ks_def not_le)
  have r: "[Some 0, Some 1, Some 2, Some 0] = map Some (map (\<lambda>k. 0 + 1 * k) ks)"
    by (simp add: ks_def)
  have c1: "corr_coeff (map Some (map (\<lambda>k. log 10 c + 2 * k) ks))
                       (map Some (map (\<lambda>k. log 10 d + 1 * k) ks)) = Inr (Some 1)"
    by (subst corr_coeff_affine[OF ne sq]) simp_all
  have c2: "corr_coeff (map Some (map (\<lambda>k. 0 + 1 * k) ks))
                       (map Some (map (\<lambda>k. log 10 (d / c) + (- 1) * k) ks)) = Inr (Some (- 1))"
    by (subst corr_coeff_affine[OF ne sq]) simp_all
  show ?thesis
    unfolding coefficients_def by (simp only: lx ly q lq r c1 c2 sum.case)
qed

lemma calibration_factors_positive: "0 < UV_factor" "0 < IR_factor"
  by (simp_all add: UV_factor_def IR_factor_def powr_neg_numeral)

lemma example2_files:
  "emission_npix example_fs2 (''628'' @ ''_emission_npix.txt'') = Some example_table_628"
  "Stdev_mean example_fs2 (''628'' @ ''_Stdev_mean.txt'') = Some example_stdevs"
  "emission_npix example_fs2 (''5194'' @ ''_emission_npix.txt'') = Some example_table_5194"
  "Stdev_mean example_fs2 (''5194'' @ ''_Stdev_mean.txt'') = Some example_stdevs"
  "2 \<le> length example_table_628" "2 \<le> length example_table_5194"
  by (simp_all add: example_fs2_def example_table_628_def example_table_5194_def)

lemma example2_data_628:
  "\<exists>lu li. data example_fs2 ''628'' =
     Inr [[Some UV_factor, Some (100 * UV_factor)], [Some IR_factor, Some (10 * IR_factor)],
          [Some 0, Some 1], lu, li]"
proof -
  from data_body_Inr[OF example_files(4) example2_files(5)] obtain L where
    L: "data_body example_table_628 example_stdevs = Inr L" by blast
  note e = data_body_explicit[OF L] and f = data_body_fields[OF L]
  have d2: "data_2 L = [Some UV_factor, Some (100 * UV_factor)]"
    unfolding e(3) example_means UV_factor_def[symmetric] by (simp add: example_table_628_def)
  have d4: "data_4 L = [Some IR_factor, Some (10 * IR_factor)]"
    unfolding e(4) example_means IR_factor_def[symmetric] by (simp add: example_table_628_def)
  have r: "column galactocentric_radius example_table_628 = [Some 0, Some 1]"
    by (simp add: column_def example_table_628_def)
  have "data example_fs2 ''628'' = Inr (returned L)"
    using example2_files(1,2) L by (rule data_Inr)
  then have "data example_fs2 ''628'' =
     Inr [[Some UV_factor, Some (100 * UV_factor)], [Some IR_factor, Some (10 * IR_factor)],
          [Some 0, Some 1], log_UV_unc L, log_IR_unc L]"
    by (simp only: f(15) d2 d4 r)
  then show ?thesis by blast
qed

lemma example2_data_5194:
  "\<exists>lu li. data example_fs2 ''5194'' =
     Inr [[Some (10000 * UV_factor), Some UV_factor], [Some (100 * IR_factor), Some IR_factor],
          [Some 2, Some 0], lu, li]"
proof -
  from data_body_Inr[OF example_files(4) example2_files(6)] obtain L where
    L: "data_body example_table_5194 example_stdevs = Inr L" by blast
  note e = data_body_explicit[OF L] and f = data_body_fields[OF L]
  have d2: "data_2 L = [Some (10000 * UV_factor), Some UV_factor]"
    unfolding e(3) example_means UV_factor_def[symmetric] by (simp add: example_table_5194_def)
  have d4: "data_4 L = [Some (100 * IR_factor), Some IR_factor]"
    unfolding e(4) example_means IR_factor_def[symmetric] by (simp add: example_table_5194_def)
  have r: "column galactocentric_radius example_table_5194 = [Some 2, Some 0]"
    by (simp add: column_def example_table_5194_def)
  have "data example_fs2 ''5194'' = Inr (returned L)"
    using example2_files(3,4) L by (rule data_Inr)
  then have "data example_fs2 ''5194'' =
     Inr [[Some (10000 * UV_factor), Some UV_factor], [Some (100 * IR_factor), Some IR_factor],
          [Some 2, Some 0], log_UV_unc L, log_IR_unc L]"
    by (simp only: f(15) d2 d4 r)
  then show ?thesis by blast
qed

text \<open>
  C7. The two coefficients \<open>plot\<close> reports should be taken over the data of all the
  listed galaxies, concatenated in the order of the list: the first on \<open>log10\<close> of the
  ultraviolet flux against \<open>log10\<close> of the infrared flux, the second on the galactocentric
  radius against \<open>log10\<close> of the ratio of infrared to ultraviolet flux. Both are computed
  so, but without \<open>colours\<close> the second one is not what the second plot reports: on the
  two example galaxies the pooled arrays have four entries each, the coefficients are 1
  and -1, and both legends read \<open>r = 1.0\<close>.
\<close>

theorem plot_reports_first_coefficient_twice:
  "\<exists>out.
     plot example_str example_fs2 [''628'', ''5194''] None = Inr out \<and>
     pool example_fs2 [''628'', ''5194''] ([], [], [], []) =
       Inr ([Some UV_factor, Some (100 * UV_factor), Some (10000 * UV_factor), Some UV_factor],
            [Some IR_factor, Some (10 * IR_factor), Some (100 * IR_factor), Some IR_factor],
            [Some 0, Some 1, Some 2, Some 0], ''NGC 628  NGC 5194  '') \<and>
     coefficients
       [Some UV_factor, Some (100 * UV_factor), Some (10000 * UV_factor), Some UV_factor]
       [Some IR_factor, Some (10 * IR_factor), Some (100 * IR_factor), Some IR_factor]
       [Some 0, Some 1, Some 2, Some 0] = Inr (Some 1, Some (- 1)) \<and>
     fig_legend (shown out ! 0) = Legend_texts [''r = '' @ example_str (Some 1)] \<and>
     fig_legend (shown out ! 1) = Legend_texts [''r = '' @ example_str (Some 1)] \<and>
     fig_legend (shown out ! 1) \<noteq> Legend_texts [''r = '' @ example_str (Some (- 1))] \<and>
     printed out = []"
proof -
  from example2_data_628 obtain lu li where
    A: "data example_fs2 ''628'' =
     Inr [[Some UV_factor, Some (100 * UV_factor)], [Some IR_factor, Some (10 * IR_factor)],
          [Some 0, Some 1], lu, li]"
    by blast
  from example2_data_5194 obtain lu' li' where
    B: "data example_fs2 ''5194'' =
     Inr [[Some (10000 * UV_factor), Some UV_factor], [Some (100 * IR_factor), Some IR_factor],
          [Some 2, Some 0], lu', li']"
    by blast
  have p: "pool example_fs2 [''628'', ''5194''] ([], [], [], []) =
       Inr ([Some UV_factor, Some (100 * UV_factor), Some (10000 * UV_factor), Some UV_factor],
            [Some IR_factor, Some (10 * IR_factor), Some (100 * IR_factor), Some IR_factor],
            [Some 0, Some 1, Some 2, Some 0], ''NGC 628  NGC 5194  '')"
    by (simp add: A B)
  note co = coefficients_two_galaxies[OF calibration_factors_positive]
  obtain calls1 where g1: "first_graph example_fs2 None [''628'', ''5194''] 0 [] = Inr calls1"
    by (simp add: A B)
  obtain calls2 where g2: "second_graph example_fs2 None [''628'', ''5194''] 0 [] = Inr calls2"
    by (simp add: A B)
  have s1: "''r = '' @ example_str (Some 1) = ''r = 1.0''"
    by (simp add: example_str_def)
  have s2: "''r = '' @ example_str (Some (- 1)) = ''r = -1.0''"
    by (simp add: example_str_def)
  have pl: "plot example_str example_fs2 [''628'', ''5194''] None =
     Inr \<lparr>shown = [\<lparr>fig_calls = calls1, fig_title = ''NGC 628  NGC 5194  '',
                  fig_xlabel = ''log(UV flux density)'',
                  fig_ylabel = ''log(IR flux density)'',
                  fig_legend = Legend_texts [''r = 1.0'']\<rparr>,
                   \<lparr>fig_calls = calls2, fig_title = ''NGC 628  NGC 5194  '',
                  fig_xlabel = ''galactocentric radius (arcsec)'',
                  fig_ylabel = ''log(IR flux density/UV flux density)'',
                  fig_legend = Legend_texts [''r = 1.0'']\<rparr>], printed = []\<rparr>"
    unfolding plot_def p sum.case prod.case co g1 g2 by (simp add: example_str_def Let_def)
  show ?thesis
    unfolding s1 s2 pl p co by simp
qed

lemma data_body_agree:
  assumes "same_bckg_means s s'"
  shows "rel_sum (=) (\<lambda>L L'. agree (returned L) (returned L')) (data_body t s) (data_body t s')"
proof -
  from assms have len: "length s = length s'" by (simp add: same_bckg_means_def)
  consider (short_s) "length s < 2" | (short_t) "2 \<le> length s" "length t < 2"
    | (full) "2 \<le> length s" "2 \<le> length t"
    by linarith
  then show ?thesis
  proof cases
    case short_s
    then show ?thesis using len by (simp add: data_body_short_stdevs)
  next
    case short_t
    then show ?thesis using len by (simp add: data_body_short_table)
  next
    case full
    from full len have s': "2 \<le> length s'" by simp
    from data_body_Inr[OF full] obtain L where L: "data_body t s = Inr L" by blast
    from data_body_Inr[OF s' full(2)] obtain L' where L': "data_body t s' = Inr L'" by blast
    note f = data_body_fields[OF L] and f' = data_body_fields[OF L']
    from assms have m: "map mean_UV s = map mean_UV s'" "map mean_IR s = map mean_IR s'"
      by (simp_all add: same_bckg_means_def)
    have "data_2 L = data_2 L'" by (simp only: f(9) f'(9) f(3) f'(3) f(1) f'(1) m)
    moreover have "data_4 L = data_4 L'" by (simp only: f(10) f'(10) f(4) f'(4) f(2) f'(2) m)
    ultimately have "agree (returned L) (returned L')"
      by (simp add: agree_def f(15) f'(15))
    then show ?thesis by (simp add: L L')
  qed
qed

lemma data_agree:
  assumes "differ_only_in_stdev fs fs'"
  shows "rel_sum (=) agree (data fs g) (data fs' g)"
proof -
  from assms have e: "emission_npix fs = emission_npix fs'"
    and b: "rel_option same_bckg_means (Stdev_mean fs (g @ ''_Stdev_mean.txt''))
              (Stdev_mean fs' (g @ ''_Stdev_mean.txt''))"
    by (simp_all add: differ_only_in_stdev_def)
  show ?thesis
  proof (cases "emission_npix fs' (g @ ''_emission_npix.txt'')")
    case None
    then show ?thesis by (simp add: data_def e)
  next
    case (Some t)
    from b show ?thesis
    proof (cases rule: option.rel_cases)
      case None
      then show ?thesis by (simp add: data_def e Some)
    next
      case (Some s s')
      from data_body_agree[OF Some(3), of t] show ?thesis
        by (cases rule: rel_sum.cases) (simp_all add: data_def e \<open>emission_npix fs' _ = Some t\<close> Some(1,2))
    qed
  qed
qed

lemma pool_agree:
  assumes "differ_only_in_stdev fs fs'"
  shows "pool fs galaxies acc = pool fs' galaxies acc"
proof (induction galaxies arbitrary: acc)
  case Nil
  show ?case by (cases acc) simp
next
  case (Cons i galaxies)
  obtain x y r t where acc: "acc = (x, y, r, t)" by (cases acc) auto
  from data_agree[OF assms, of i] show ?case
    by (cases rule: rel_sum.cases) (simp_all add: acc agree_def Cons.IH)
qed

lemma first_graph_agree:
  assumes "differ_only_in_stdev fs fs'"
  shows "first_graph fs colours galaxies count calls = first_graph fs' colours galaxies count calls"
proof (induction galaxies arbitrary: count calls)
  case Nil
  show ?case by simp
next
  case (Cons i galaxies)
  from data_agree[OF assms, of i] show ?case
    by (cases rule: rel_sum.cases) (simp_all add: agree_def Cons.IH Let_def split: sum.splits)
qed

lemma second_graph_agree:
  assumes "differ_only_in_stdev fs fs'"
  shows "second_graph fs colours galaxies count calls = second_graph fs' colours galaxies count calls"
proof (induction galaxies arbitrary: count calls)
  case Nil
  show ?case by simp
next
  case (Cons i galaxies)
  from data_agree[OF assms, of i] show ?case
    by (cases rule: rel_sum.cases) (simp_all add: agree_def Cons.IH Let_def split: sum.splits)
qed

lemma example_differ: "differ_only_in_stdev example_fs example_fs'"
  by (simp add: differ_only_in_stdev_def example_fs_def example_fs'_def same_bckg_means_def
        example_stdevs_def example_stdevs'_def)

text \<open>
  C10. What \<open>plot\<close> draws and reports does not depend on the standard-deviation columns
  of the background files: two sets of files that differ only there give the same
  result, figures, legends and printed lines alike (or the same exception).
\<close>

theorem plot_ignores_stdev:
  assumes "differ_only_in_stdev fs fs'"
  shows "plot str fs galaxies colours = plot str fs' galaxies colours"
  unfolding plot_def
  by (simp only: pool_agree[OF assms] first_graph_agree[OF assms] second_graph_agree[OF assms])

theorem plot_ignores_stdev_witness:
  "differ_only_in_stdev example_fs example_fs' \<and>
   Stdev_mean example_fs ''3938_Stdev_mean.txt'' \<noteq> Stdev_mean example_fs' ''3938_Stdev_mean.txt'' \<and>
   plot example_str example_fs [''3938''] None = plot example_str example_fs' [''3938''] None \<and>
   (\<exists>out. plot example_str example_fs' [''3938''] None = Inr out)"
proof -
  have a: "Stdev_mean example_fs ''3938_Stdev_mean.txt'' \<noteq> Stdev_mean example_fs' ''3938_Stdev_mean.txt''"
    by (simp add: example_fs_def example_fs'_def example_stdevs_def example_stdevs'_def)
  have b: "plot example_str example_fs [''3938''] None = plot example_str example_fs' [''3938''] None"
    using example_differ by (rule plot_ignores_stdev)
  from example_plot obtain out where "plot example_str example_fs [''3938''] None = Inr out"
    by blast
  then have c: "plot example_str example_fs' [''3938''] None = Inr out"
    by (simp only: b)
  from example_differ a b c show ?thesis by blast
qed

end
